theory Spec2Isabelle
  imports Main
begin

section \<open>Data model\<close>

text \<open>
  The backend keeps its state in relational tables reached through an ORM. Each table is
  a list of rows (a \<^theory_text>\<open>record\<close> per model class) in insertion order.
  \<open>Model.query.get(id)\<close> is a search for the row with that primary key,
  \<open>query.filter(...).first()\<close> is the first row that satisfies the filter, and a row
  that was loaded, mutated and committed is written back in place. Instants
  (\<open>datetime\<close>) are integers counting seconds, so \<open>timedelta(hours=1)\<close> is 3600.
  Columns that may be \<open>None\<close> are options. A column declared \<open>nullable=False\<close>
  whose attribute a handler may leave \<open>None\<close> is an option too, and the commit that would
  insert \<open>None\<close> there raises an integrity error. Text is a \<^typ>\<open>string\<close>, the
  bytes of its encoding, so that text without an encoding is no value of the type; a
  password, whose characters the code inspects one by one, is a list of code points.
\<close>

type_synonym datetime = int

record account =
  acc_id :: nat
  email :: string
  password_hash :: string
  organization :: "string option"
  webex_access_token :: "string option"
  webex_refresh_token :: "string option"
  webex_token_expires_at :: "datetime option"

record profile =
  prof_id :: nat
  prof_account_id :: nat
  prof_name :: string

record relation =
  rel_id :: nat
  from_profile_id :: nat
  to_profile_id :: nat
  rel_status :: string

record friend_request =
  fr_id :: nat
  fr_sender_profile_id :: nat
  fr_receiver_profile_id :: nat
  fr_status :: string

record notification =
  notif_id :: nat
  notif_account_id :: nat
  notif_title :: "string option"
  notif_message :: "string option"
  notif_type :: string
  notif_related_id :: "string option"

record post =
  post_id :: nat
  post_profile_id :: nat
  content :: string
  likes :: int
  liked_by :: "nat list"

record meeting_invitation =
  inv_id :: nat
  inv_sender_profile_id :: nat
  inv_receiver_profile_id :: nat
  inv_title :: "string option"
  inv_start_time :: datetime
  inv_end_time :: datetime
  inv_status :: string
  inv_meeting_id :: "nat option"

text \<open>
  The attribute \<open>id\<close> of a \<open>Meeting\<close> object is \<open>None\<close> from its construction
  until the session flushes it (the primary key is assigned by the INSERT), so it is an
  option here; every row of the table has \<open>Some\<close> id.
\<close>

record meeting =
  meet_id :: "nat option"
  webex_id :: "string option"
  meet_title :: "string option"
  meet_start_time :: datetime
  meet_end_time :: datetime
  web_link :: "string option"
  meet_password :: "string option"
  creator_id :: nat
  participants :: "nat list"

record db =
  accounts :: "account list"
  profiles :: "profile list"
  relations :: "relation list"
  friend_requests :: "friend_request list"
  notifications :: "notification list"
  posts :: "post list"
  invitations :: "meeting_invitation list"
  meetings :: "meeting list"

text \<open>
  What a handler returns: the HTTP status code, the \<open>msg\<close> field of the JSON body
  and the remaining fields of the body, when there are any.
\<close>

datatype payload =
    NoPayload
  | Likes int
  | Status string
  | AccountId nat
  | InvitationBody nat "string option" datetime datetime string
  | MeetingBody "nat option" "string option" "string option" datetime datetime "string option"

record response =
  code :: nat
  msg :: string
  payload :: payload

definition jsonify :: "string \<Rightarrow> nat \<Rightarrow> response" where
  "jsonify m c = \<lparr>code = c, msg = m, payload = NoPayload\<rparr>"

definition jsonify_with :: "string \<Rightarrow> payload \<Rightarrow> nat \<Rightarrow> response" where
  "jsonify_with m p c = \<lparr>code = c, msg = m, payload = p\<rparr>"

text \<open>
  An exception that no handler catches leaves the request with the framework's answer 500;
  the session is discarded and nothing of the request is persisted.
\<close>

definition unhandled :: response where
  "unhandled = jsonify ''Internal Server Error'' 500"

text \<open>
  A call into a library or to an external service either raises, with a message, or
  returns a value.
\<close>

datatype 'a outcome = Raises string | Returns 'a

text \<open>
  A field of a JSON body that the code reads with \<open>get(key, default)\<close>: the key may be
  absent (the default is taken), present with \<open>null\<close> (the result is \<open>None\<close>, not the
  default), or present with a value.
\<close>

datatype 'a json_field = Absent | Null | Value 'a

text \<open>
  A JSON value read with \<open>get(key)\<close>, where an absent key and \<open>null\<close> both give
  \<open>None\<close> (\<open>JNull\<close>). Of the JSON values, booleans, integers and strings are
  modelled; arrays, objects and numbers with a fraction are left out.
\<close>

datatype json_value = JNull | JBool bool | JInt int | JStr string

text \<open>Python's truth value of such a value.\<close>

definition falsy_json :: "json_value \<Rightarrow> bool" where
  "falsy_json c \<longleftrightarrow>
     (case c of JNull \<Rightarrow> True | JBool b \<Rightarrow> \<not> b | JInt i \<Rightarrow> i = 0 | JStr t \<Rightarrow> t = [])"

text \<open>The key the database gives a new row: one more than the largest key in use.\<close>

definition next_id :: "nat list \<Rightarrow> nat" where
  "next_id ids = Suc (fold max ids 0)"

text \<open>Python's truth value of an optional string: \<open>None\<close> and \<open>""\<close> are false.\<close>

definition falsy :: "'a list option \<Rightarrow> bool" where
  "falsy x \<longleftrightarrow> (case x of None \<Rightarrow> True | Some v \<Rightarrow> v = [])"

definition get_account :: "db \<Rightarrow> nat \<Rightarrow> account option" where
  "get_account s i = find (\<lambda>a. acc_id a = i) (accounts s)"

definition get_profile :: "db \<Rightarrow> nat \<Rightarrow> profile option" where
  "get_profile s i = find (\<lambda>p. prof_id p = i) (profiles s)"

text \<open>\<open>account.profiles.first()\<close>\<close>

definition first_profile :: "db \<Rightarrow> account \<Rightarrow> profile option" where
  "first_profile s a = find (\<lambda>p. prof_account_id p = acc_id a) (profiles s)"

section \<open>Posts: like and unlike\<close>

text \<open>
  \<open>posts_bp.py\<close>. \<open>post.liked_by\<close> is the collection of the accounts (their ids) in
  the association table \<open>post_likes\<close>; \<open>append\<close> adds at the end and \<open>remove\<close>
  deletes the first occurrence.
\<close>

definition get_post :: "db \<Rightarrow> nat \<Rightarrow> post option" where
  "get_post s i = find (\<lambda>p. post_id p = i) (posts s)"

definition commit_post :: "post \<Rightarrow> db \<Rightarrow> db" where
  "commit_post p s = s\<lparr>posts := map (\<lambda>q. if post_id q = post_id p then p else q) (posts s)\<rparr>"

definition like_post :: "db \<Rightarrow> nat \<Rightarrow> nat \<Rightarrow> db \<times> response" where
  "like_post s current_user_id pid =
     (case get_account s current_user_id of
        None \<Rightarrow> (s, jsonify ''User not found'' 404)
      | Some account \<Rightarrow>
         (case get_post s pid of
            None \<Rightarrow> (s, jsonify ''Post not found'' 404)
          | Some post \<Rightarrow>
              if acc_id account \<in> set (liked_by post)
              then (s, jsonify_with ''Already liked'' (Likes (likes post)) 200)
              else
                let post' = post\<lparr>liked_by := liked_by post @ [acc_id account],
                                  likes := likes post + 1\<rparr>
                in (commit_post post' s,
                    jsonify_with ''Post liked'' (Likes (likes post')) 200)))"

definition unlike_post :: "db \<Rightarrow> nat \<Rightarrow> nat \<Rightarrow> db \<times> response" where
  "unlike_post s current_user_id pid =
     (case get_account s current_user_id of
        None \<Rightarrow> (s, jsonify ''User not found'' 404)
      | Some account \<Rightarrow>
         (case get_post s pid of
            None \<Rightarrow> (s, jsonify ''Post not found'' 404)
          | Some post \<Rightarrow>
              if acc_id account \<notin> set (liked_by post)
              then (s, jsonify_with ''Not liked yet'' (Likes (likes post)) 200)
              else
                let post1 = post\<lparr>liked_by := remove1 (acc_id account) (liked_by post)\<rparr>;
                    post' = (if likes post1 > 0 then post1\<lparr>likes := likes post1 - 1\<rparr>
                             else post1)
                in (commit_post post' s,
                    jsonify_with ''Post unliked'' (Likes (likes post')) 200)))"

text \<open>
  The counter agrees with the like-set. The association table has the primary key
  (post, account), so an account is in the collection at most once.
\<close>

definition likes_consistent :: "post \<Rightarrow> bool" where
  "likes_consistent p \<longleftrightarrow> distinct (liked_by p) \<and> likes p = int (card (set (liked_by p)))"

section \<open>Registration\<close>

text \<open>
  \<open>main.py\<close>. A password is a Python string, a sequence of code points; \<open>len\<close>
  counts them and \<open>c in capital_letters\<close> compares them, so a password is a list of
  code points (natural numbers) here. \<open>ord\<close> gives the code point of a character and
  \<open>chr\<close> is then the identity.
\<close>

type_synonym codepoint = nat

definition ord :: "char \<Rightarrow> codepoint" where
  "ord c = of_char c"

definition capital_letters :: "codepoint list" where
  "capital_letters = [ord CHR ''A'' ..< ord CHR ''Z'' + 1]"

definition lowercase_letters :: "codepoint list" where
  "lowercase_letters = [ord CHR ''a'' ..< ord CHR ''z'' + 1]"

text \<open>\<open>str(i)\<close> of a single digit \<open>i\<close> is the character \<open>i\<close> places after \<open>'0'\<close>.\<close>

definition digits :: "codepoint list" where
  "digits = map (\<lambda>i. ord CHR ''0'' + i) [0 ..< 10]"

definition has_upper :: "codepoint list \<Rightarrow> bool" where
  "has_upper password = list_ex (\<lambda>c. c \<in> set capital_letters) password"

definition has_lower :: "codepoint list \<Rightarrow> bool" where
  "has_lower password = list_ex (\<lambda>c. c \<in> set lowercase_letters) password"

definition has_digit :: "codepoint list \<Rightarrow> bool" where
  "has_digit password = list_ex (\<lambda>c. c \<in> set digits) password"

definition has_special :: "codepoint list \<Rightarrow> bool" where
  "has_special password =
     list_ex (\<lambda>c. c \<notin> set capital_letters \<and> c \<notin> set lowercase_letters \<and> c \<notin> set digits)
       password"

definition password_valid :: "codepoint list \<Rightarrow> bool" where
  "password_valid password \<longleftrightarrow>
     length password \<ge> 8 \<and> has_upper password \<and> has_lower password \<and>
     has_digit password \<and> has_special password"

text \<open>
  The JSON body of a registration; a missing key is \<open>None\<close>. A missing or empty body
  is \<open>None\<close> as a whole.
\<close>

record register_data =
  reg_email :: "string option"
  reg_password :: "codepoint list option"
  reg_organization :: "string option"

definition find_account_by_email :: "db \<Rightarrow> string \<Rightarrow> account option" where
  "find_account_by_email s e = find (\<lambda>a. email a = e) (accounts s)"

text \<open>
  The hashing primitive \<open>generate_password_hash\<close> belongs to a library and is a
  parameter of the handler. It encodes the password and raises on one that has no
  encoding (a lone surrogate); the handler does not catch that, so the request ends with
  the answer 500 and no account.
\<close>

definition register ::
  "(codepoint list \<Rightarrow> string outcome) \<Rightarrow> db \<Rightarrow> register_data option \<Rightarrow> db \<times> response" where
  "register generate_password_hash s data =
     (case data of
        None \<Rightarrow> (s, jsonify ''Invalid request format'' 400)
      | Some d \<Rightarrow>
         (case reg_email d of
            None \<Rightarrow> (s, jsonify ''Missing required fields'' 400)
          | Some e \<Rightarrow>
             (case reg_password d of
                None \<Rightarrow> (s, jsonify ''Missing required fields'' 400)
              | Some password \<Rightarrow>
                  if e = [] \<or> password = []
                  then (s, jsonify ''Missing required fields'' 400)
                  else if \<not> password_valid password
                  then (s, jsonify
                    ''Password must be at least 8 characters and include one uppercase, one lowercase, one digit, and one special character.''
                    400)
                  else if find_account_by_email s e \<noteq> None
                  then (s, jsonify ''Account already exists'' 409)
                  else
                   (case generate_password_hash password of
                      Raises err \<Rightarrow> (s, unhandled)
                    | Returns hashed \<Rightarrow>
                        let account = \<lparr>acc_id = next_id (map acc_id (accounts s)),
                                       email = e,
                                       password_hash = hashed,
                                       organization = reg_organization d,
                                       webex_access_token = None,
                                       webex_refresh_token = None,
                                       webex_token_expires_at = None\<rparr>
                        in (s\<lparr>accounts := accounts s @ [account]\<rparr>,
                            jsonify_with ''Account created successfully''
                              (AccountId (acc_id account)) 201)))))"

text \<open>
  The password policy in the words of the specification: at least 8 characters, an
  uppercase letter, a lowercase letter, a digit, and a character outside these three
  classes (the letters \<open>A\<close> to \<open>Z\<close> and \<open>a\<close> to \<open>z\<close> and the digits \<open>0\<close> to \<open>9\<close>).
\<close>

definition is_uppercase :: "codepoint \<Rightarrow> bool" where
  "is_uppercase c \<longleftrightarrow> 65 \<le> c \<and> c \<le> 90"

definition is_lowercase :: "codepoint \<Rightarrow> bool" where
  "is_lowercase c \<longleftrightarrow> 97 \<le> c \<and> c \<le> 122"

definition is_digit :: "codepoint \<Rightarrow> bool" where
  "is_digit c \<longleftrightarrow> 48 \<le> c \<and> c \<le> 57"

definition password_policy :: "codepoint list \<Rightarrow> bool" where
  "password_policy pw \<longleftrightarrow>
     8 \<le> length pw \<and> (\<exists>c \<in> set pw. is_uppercase c) \<and> (\<exists>c \<in> set pw. is_lowercase c) \<and>
     (\<exists>c \<in> set pw. is_digit c) \<and>
     (\<exists>c \<in> set pw. \<not> is_uppercase c \<and> \<not> is_lowercase c \<and> \<not> is_digit c)"

section \<open>Friend requests\<close>

text \<open>
  \<open>friends_bp.py\<close>. The body of the request carries \<open>classroomId\<close>; a missing or
  empty body is \<open>None\<close>, and \<open>not target_classroom_id\<close> holds for a missing id and
  for 0.
\<close>

record friend_data =
  classroomId :: "nat option"

text \<open>\<open>str\<close> of a natural number: its decimal digits.\<close>

fun str :: "nat \<Rightarrow> string" where
  "str n = (if n < 10 then [char_of (48 + n)] else str (n div 10) @ [char_of (48 + n mod 10)])"

declare str.simps [simp del]

text \<open>
  Modelled from the spec: the default of the column \<open>status\<close> of the model
  \<open>Relation\<close>, whose file \<open>model/relation.py\<close> is not among the sources. The
  handler builds its \<open>Relation()\<close> rows without a status, and the specification has the
  two rows of a mutual acceptance \<open>accepted\<close>.
\<close>

definition relation_default_status :: string where
  "relation_default_status = ''accepted''"

text \<open>The three queries of the handler, each ending in \<open>.first()\<close>.\<close>

definition existing_relation :: "db \<Rightarrow> nat \<Rightarrow> nat \<Rightarrow> relation option" where
  "existing_relation s sender target =
     find (\<lambda>r. (from_profile_id r = sender \<and> to_profile_id r = target) \<or>
                (from_profile_id r = target \<and> to_profile_id r = sender)) (relations s)"

definition pending_request :: "db \<Rightarrow> nat \<Rightarrow> nat \<Rightarrow> friend_request option" where
  "pending_request s sender receiver =
     find (\<lambda>r. fr_sender_profile_id r = sender \<and> fr_receiver_profile_id r = receiver \<and>
                fr_status r = ''pending'') (friend_requests s)"

text \<open>
  The columns \<open>title\<close> and \<open>message\<close> of a notification are declared
  \<open>nullable=False\<close>: the commit of a row without one of them raises an integrity error.
\<close>

definition notification_insertable :: "notification \<Rightarrow> bool" where
  "notification_insertable n \<longleftrightarrow> notif_title n \<noteq> None \<and> notif_message n \<noteq> None"

definition commit_friend_request :: "friend_request \<Rightarrow> db \<Rightarrow> db" where
  "commit_friend_request r s =
     s\<lparr>friend_requests := map (\<lambda>q. if fr_id q = fr_id r then r else q) (friend_requests s)\<rparr>"

definition send_friend_request :: "db \<Rightarrow> nat \<Rightarrow> friend_data option \<Rightarrow> db \<times> response" where
  "send_friend_request s current_user_id data =
     (case get_account s current_user_id of
        None \<Rightarrow> (s, jsonify ''User not found'' 404)
      | Some account \<Rightarrow>
     (case first_profile s account of
        None \<Rightarrow> (s, jsonify ''Profile not found'' 404)
      | Some sender_profile \<Rightarrow>
     (case data of
        None \<Rightarrow> (s, jsonify ''Request body is required'' 400)
      | Some d \<Rightarrow>
     (case classroomId d of
        None \<Rightarrow> (s, jsonify ''Target classroom ID is required'' 400)
      | Some target_classroom_id \<Rightarrow>
     if target_classroom_id = 0 then (s, jsonify ''Target classroom ID is required'' 400)
     else
     (case get_profile s target_classroom_id of
        None \<Rightarrow> (s, jsonify ''Target classroom not found'' 404)
      | Some target_profile \<Rightarrow>
     if prof_id sender_profile = prof_id target_profile
     then (s, jsonify ''Cannot add yourself as a friend'' 400)
     else if existing_relation s (prof_id sender_profile) (prof_id target_profile) \<noteq> None
     then (s, jsonify ''Already friends'' 400)
     else if pending_request s (prof_id sender_profile) (prof_id target_profile) \<noteq> None
     then (s, jsonify ''Friend request already sent'' 400)
     else
     (case pending_request s (prof_id target_profile) (prof_id sender_profile) of
        Some reverse_request \<Rightarrow>
          let reverse_request' = reverse_request\<lparr>fr_status := ''accepted''\<rparr>;
              k = next_id (map rel_id (relations s));
              rel1 = \<lparr>rel_id = k,
                      from_profile_id = prof_id target_profile,
                      to_profile_id = prof_id sender_profile,
                      rel_status = relation_default_status\<rparr>;
              rel2 = \<lparr>rel_id = Suc k,
                      from_profile_id = prof_id sender_profile,
                      to_profile_id = prof_id target_profile,
                      rel_status = relation_default_status\<rparr>;
              notif = \<lparr>notif_id = next_id (map notif_id (notifications s)),
                       notif_account_id = prof_account_id target_profile,
                       notif_title = Some ''Friend Request Accepted'',
                       notif_message =
                         Some (prof_name sender_profile @ '' accepted your friend request!''),
                       notif_type = ''success'',
                       notif_related_id = Some (str (prof_id sender_profile))\<rparr>
          in if notification_insertable notif
             then ((commit_friend_request reverse_request' s)
                     \<lparr>relations := relations s @ [rel1, rel2],
                      notifications := notifications s @ [notif]\<rparr>,
                   jsonify_with ''Friend request accepted (mutual)'' (Status ''accepted'') 200)
             else (s, unhandled)
      | None \<Rightarrow>
          let new_request = \<lparr>fr_id = next_id (map fr_id (friend_requests s)),
                             fr_sender_profile_id = prof_id sender_profile,
                             fr_receiver_profile_id = prof_id target_profile,
                             fr_status = ''pending''\<rparr>;
              notif = \<lparr>notif_id = next_id (map notif_id (notifications s)),
                       notif_account_id = prof_account_id target_profile,
                       notif_title = Some ''New Friend Request'',
                       notif_message = None,
                       notif_type = ''friend_request_received'',
                       notif_related_id = Some (str (prof_id sender_profile))\<rparr>
          in if notification_insertable notif
             then (s\<lparr>friend_requests := friend_requests s @ [new_request],
                      notifications := notifications s @ [notif]\<rparr>,
                   jsonify_with ''Friend request sent'' (Status ''pending'') 201)
             else (s, unhandled)))))))"

text \<open>The pending friend requests between two profiles, in either direction.\<close>

definition pending_between :: "db \<Rightarrow> nat \<Rightarrow> nat \<Rightarrow> friend_request list" where
  "pending_between s a b =
     filter (\<lambda>r. fr_status r = ''pending'' \<and>
                  ((fr_sender_profile_id r = a \<and> fr_receiver_profile_id r = b) \<or>
                   (fr_sender_profile_id r = b \<and> fr_receiver_profile_id r = a)))
       (friend_requests s)"

definition relations_between :: "db \<Rightarrow> nat \<Rightarrow> nat \<Rightarrow> relation list" where
  "relations_between s a b =
     filter (\<lambda>r. (from_profile_id r = a \<and> to_profile_id r = b) \<or>
                  (from_profile_id r = b \<and> to_profile_id r = a)) (relations s)"

section \<open>Meeting invitations\<close>

text \<open>
  \<open>webex_bp.py\<close>. The conferencing gateway (\<open>service/webex_service.py\<close>, an
  external collaborator) is a parameter of the handlers. \<open>refresh_access_token\<close> is
  called inside a \<open>try\<close> whose \<open>except\<close> catches every exception, so \<open>Raises\<close>
  stands for any failure of the call or of reading its answer. \<open>create_meeting\<close> raises,
  or returns a JSON object, or returns something that is no object (\<open>None\<close>), on which
  the handler's \<open>.get\<close> raises outside of any \<open>try\<close>.
\<close>

record token_data =
  td_access_token :: "string option"
  td_refresh_token :: "string option"
  td_expires_in :: "int option"

record webex_meeting =
  wx_id :: "string option"
  wx_title :: "string json_field"
  wx_webLink :: "string option"
  wx_password :: "string option"

record webex_service =
  refresh_access_token :: "string option \<Rightarrow> token_data outcome"
  create_meeting ::
    "string option \<Rightarrow> string option \<Rightarrow> datetime \<Rightarrow> datetime \<Rightarrow> webex_meeting option outcome"

definition get_invitation :: "db \<Rightarrow> nat \<Rightarrow> meeting_invitation option" where
  "get_invitation s i = find (\<lambda>v. inv_id v = i) (invitations s)"

definition commit_invitation :: "meeting_invitation \<Rightarrow> db \<Rightarrow> db" where
  "commit_invitation v s =
     s\<lparr>invitations := map (\<lambda>w. if inv_id w = inv_id v then v else w) (invitations s)\<rparr>"

definition commit_account :: "account \<Rightarrow> db \<Rightarrow> db" where
  "commit_account a s =
     s\<lparr>accounts := map (\<lambda>b. if acc_id b = acc_id a then a else b) (accounts s)\<rparr>"

text \<open>
  The column \<open>title\<close> of an invitation and of a meeting is declared
  \<open>nullable=False\<close>: the commit of a row without a title raises an integrity error.
\<close>

definition invitation_insertable :: "meeting_invitation \<Rightarrow> bool" where
  "invitation_insertable v \<longleftrightarrow> inv_title v \<noteq> None"

definition meeting_insertable :: "meeting \<Rightarrow> bool" where
  "meeting_insertable m \<longleftrightarrow> meet_title m \<noteq> None"

subsection \<open>Creating an invitation\<close>

text \<open>
  The body of the request. \<open>title\<close> is read with a default, the other three fields
  without. The builtin \<open>int\<close> on a string and \<open>datetime.fromisoformat\<close> are
  parameters; \<open>None\<close> is their \<open>ValueError\<close>.
\<close>

record meeting_data =
  md_title :: "string json_field"
  md_start_time :: json_value
  md_end_time :: json_value
  md_classroom_id :: json_value

record builtins =
  int_of_string :: "string \<Rightarrow> int option"
  fromisoformat :: "string \<Rightarrow> datetime option"

definition startswith :: "string \<Rightarrow> string \<Rightarrow> bool" where
  "startswith t pre \<longleftrightarrow> take (length pre) t = pre"

definition is_dummy :: "json_value \<Rightarrow> bool" where
  "is_dummy c \<longleftrightarrow> (case c of JStr t \<Rightarrow> startswith t ''dummy_'' | _ \<Rightarrow> False)"

text \<open>\<open>int(classroom_id)\<close>; a boolean is the integer 0 or 1.\<close>

definition to_int :: "builtins \<Rightarrow> json_value \<Rightarrow> int option" where
  "to_int b c =
     (case c of
        JNull \<Rightarrow> None
      | JBool t \<Rightarrow> Some (if t then 1 else 0)
      | JInt i \<Rightarrow> Some i
      | JStr t \<Rightarrow> int_of_string b t)"

text \<open>\<open>if t.endswith('Z'): t = t[:-1]\<close>\<close>

definition strip_Z :: "string \<Rightarrow> string" where
  "strip_Z t = (if t \<noteq> [] \<and> last t = CHR ''Z'' then butlast t else t)"

text \<open>\<open>Profile.query.get\<close> on an integer: no row has a negative key.\<close>

definition get_profile_int :: "db \<Rightarrow> int \<Rightarrow> profile option" where
  "get_profile_int s i = (if i < 0 then None else get_profile s (nat i))"

text \<open>
  The window of the invitation. \<open>Inl\<close> is the answer of a request that stops here:
  400 for an instant that does not parse (the \<open>ValueError\<close> the handler catches), 500
  for a value that is no string, whose \<open>.endswith\<close> raises an error the handler does
  not catch. Both suffixes are looked at before either instant is parsed.
\<close>

definition time_window ::
  "builtins \<Rightarrow> datetime \<Rightarrow> json_value \<Rightarrow> json_value \<Rightarrow> response + datetime \<times> datetime" where
  "time_window b now start_time_str end_time_str =
     (if falsy_json start_time_str \<or> falsy_json end_time_str
      then Inr (now, now + 3600)
      else
        (case (start_time_str, end_time_str) of
           (JStr st, JStr en) \<Rightarrow>
             (case fromisoformat b (strip_Z st) of
                None \<Rightarrow> Inl (jsonify ''Invalid date format'' 400)
              | Some start_time \<Rightarrow>
                 (case fromisoformat b (strip_Z en) of
                    None \<Rightarrow> Inl (jsonify ''Invalid date format'' 400)
                  | Some end_time \<Rightarrow> Inr (start_time, end_time)))
         | _ \<Rightarrow> Inl unhandled))"

definition create_webex_meeting ::
  "builtins \<Rightarrow> datetime \<Rightarrow> db \<Rightarrow> nat \<Rightarrow> meeting_data option \<Rightarrow> db \<times> response" where
  "create_webex_meeting b now s current_user_id data =
     (case get_account s current_user_id of
        None \<Rightarrow> (s, jsonify ''User not found'' 404)
      | Some account \<Rightarrow>
     (case first_profile s account of
        None \<Rightarrow> (s, jsonify ''No profile found for account'' 400)
      | Some creator_profile \<Rightarrow>
     (case data of
        None \<Rightarrow> (s, unhandled)
      | Some d \<Rightarrow>
     let title = (case md_title d of
                    Absent \<Rightarrow> Some ''Classroom Meeting''
                  | Null \<Rightarrow> None
                  | Value t \<Rightarrow> Some t);
         start_time_str = md_start_time d;
         end_time_str = md_end_time d;
         classroom_id = md_classroom_id d
     in
     if falsy_json classroom_id then (s, jsonify ''classroom_id is required'' 400)
     else if is_dummy classroom_id
     then (s, jsonify
       ''Cannot invite dummy classrooms. Please use real classrooms from your network.'' 400)
     else
     (case to_int b classroom_id of
        None \<Rightarrow> (s, jsonify ''Invalid classroom_id format'' 400)
      | Some cid \<Rightarrow>
     (case get_profile_int s cid of
        None \<Rightarrow> (s, jsonify ''Receiver classroom not found'' 404)
      | Some receiver_profile \<Rightarrow>
     if prof_id creator_profile = prof_id receiver_profile
     then (s, jsonify ''You cannot invite your own classroom'' 400)
     else
     (case time_window b now start_time_str end_time_str of
        Inl r \<Rightarrow> (s, r)
      | Inr (start_time, end_time) \<Rightarrow>
          let new_invitation = \<lparr>inv_id = next_id (map inv_id (invitations s)),
                                inv_sender_profile_id = prof_id creator_profile,
                                inv_receiver_profile_id = prof_id receiver_profile,
                                inv_title = title,
                                inv_start_time = start_time,
                                inv_end_time = end_time,
                                inv_status = ''pending'',
                                inv_meeting_id = None\<rparr>
          in if invitation_insertable new_invitation
             then (s\<lparr>invitations := invitations s @ [new_invitation]\<rparr>,
                   jsonify_with ''Meeting invitation sent successfully''
                     (InvitationBody (inv_id new_invitation) (inv_title new_invitation)
                        (inv_start_time new_invitation) (inv_end_time new_invitation)
                        (inv_status new_invitation)) 201)
             else (s, unhandled)))))))"

subsection \<open>Accepting, declining and cancelling\<close>

text \<open>
  The refresh of the organizer's token inside \<open>accept_invitation\<close>: \<open>Inl\<close> is the
  answer of the \<open>except\<close> branch, \<open>Inr\<close> the account as the handler goes on with
  it, committed if it was refreshed. The clock is read once per request.
\<close>

definition refresh_if_expired ::
  "webex_service \<Rightarrow> datetime \<Rightarrow> account \<Rightarrow> response + account" where
  "refresh_if_expired ws now sender_account =
     (case webex_token_expires_at sender_account of
        None \<Rightarrow> Inr sender_account
      | Some expires_at \<Rightarrow>
          if expires_at < now
          then
            (case refresh_access_token ws (webex_refresh_token sender_account) of
               Raises e \<Rightarrow> Inl (jsonify
                 ''Failed to refresh organizer's WebEx session. Please try again later.'' 403)
             | Returns td \<Rightarrow>
                 let a1 = sender_account\<lparr>webex_access_token := td_access_token td\<rparr>;
                     a2 = a1\<lparr>webex_refresh_token :=
                            (case td_refresh_token td of
                               None \<Rightarrow> webex_refresh_token a1
                             | Some t \<Rightarrow> Some t)\<rparr>;
                     a3 = (case td_expires_in td of
                             None \<Rightarrow> a2
                           | Some expires_in \<Rightarrow>
                               if expires_in \<noteq> 0
                               then a2\<lparr>webex_token_expires_at := Some (now + expires_in)\<rparr>
                               else a2)
                 in Inr a3)
          else Inr sender_account)"

text \<open>
  The flush of a new \<open>Meeting\<close> at the commit: the INSERT gives the object its primary
  key. Before, the attribute \<open>id\<close> of the object is \<open>None\<close>: \<open>db.session.add\<close>
  only registers the object, and nothing between it and the commit makes the session
  flush.
\<close>

definition meeting_ids :: "meeting list \<Rightarrow> nat list" where
  "meeting_ids ms = concat (map (\<lambda>m. case meet_id m of None \<Rightarrow> [] | Some i \<Rightarrow> [i]) ms)"

definition flush_meeting :: "db \<Rightarrow> meeting \<Rightarrow> meeting" where
  "flush_meeting s m = m\<lparr>meet_id := Some (next_id (meeting_ids (meetings s)))\<rparr>"

definition accept_invitation ::
  "webex_service \<Rightarrow> datetime \<Rightarrow> db \<Rightarrow> nat \<Rightarrow> nat \<Rightarrow> db \<times> response" where
  "accept_invitation ws now s current_user_id invitation_id =
     (case get_account s current_user_id of
        None \<Rightarrow> (s, jsonify ''User not found'' 404)
      | Some account \<Rightarrow>
     (case first_profile s account of
        None \<Rightarrow> (s, jsonify ''No profile found for account'' 400)
      | Some receiver_profile \<Rightarrow>
     (case get_invitation s invitation_id of
        None \<Rightarrow> (s, jsonify ''Invitation not found'' 404)
      | Some invitation \<Rightarrow>
     if inv_receiver_profile_id invitation \<noteq> prof_id receiver_profile
     then (s, jsonify ''This invitation is not for you'' 403)
     else if inv_status invitation \<noteq> ''pending''
     then (s, jsonify (''Invitation is already '' @ inv_status invitation) 400)
     else
     (case get_profile s (inv_sender_profile_id invitation) of
        None \<Rightarrow> (s, unhandled)
      | Some sender \<Rightarrow>
     (case get_account s (prof_account_id sender) of
        None \<Rightarrow> (s, unhandled)
      | Some sender_account \<Rightarrow>
     if falsy (webex_access_token sender_account)
     then (s, jsonify ''The meeting organizer's WebEx account is not connected'' 403)
     else
     (case refresh_if_expired ws now sender_account of
        Inl r \<Rightarrow> (s, r)
      | Inr sender_account' \<Rightarrow>
     let s1 = (if sender_account' = sender_account then s else commit_account sender_account' s)
     in
     (case create_meeting ws (webex_access_token sender_account') (inv_title invitation)
             (inv_start_time invitation) (inv_end_time invitation) of
        Raises e \<Rightarrow> (s1, jsonify (''Failed to create WebEx meeting: '' @ e) 500)
      | Returns None \<Rightarrow> (s1, unhandled)
      | Returns (Some webex_meeting) \<Rightarrow>
          let new_meeting = \<lparr>meet_id = None,
                             webex_id = wx_id webex_meeting,
                             meet_title = (case wx_title webex_meeting of
                                             Absent \<Rightarrow> inv_title invitation
                                           | Null \<Rightarrow> None
                                           | Value t \<Rightarrow> Some t),
                             meet_start_time = inv_start_time invitation,
                             meet_end_time = inv_end_time invitation,
                             web_link = wx_webLink webex_meeting,
                             meet_password = wx_password webex_meeting,
                             creator_id = inv_sender_profile_id invitation,
                             participants = []\<rparr>;
              new_meeting1 = new_meeting\<lparr>participants :=
                               participants new_meeting @ [prof_id receiver_profile]\<rparr>;
              invitation1 = invitation\<lparr>inv_status := ''accepted''\<rparr>;
              invitation2 = invitation1\<lparr>inv_meeting_id := meet_id new_meeting1\<rparr>;
              new_meeting2 = flush_meeting s1 new_meeting1;
              s2 = (commit_invitation invitation2 s1)\<lparr>meetings := meetings s1 @ [new_meeting2]\<rparr>
          in if meeting_insertable new_meeting1
             then (s2,
                   jsonify_with ''Invitation accepted. Meeting created successfully!''
                     (MeetingBody (meet_id new_meeting2) (meet_title new_meeting2)
                        (web_link new_meeting2) (meet_start_time new_meeting2)
                        (meet_end_time new_meeting2) (meet_password new_meeting2)) 201)
             else (s1, unhandled))))))))"








section \<open>Concrete states\<close>

text \<open>Two accounts with a classroom each, and a post that the first account likes.\<close>

definition demo_alice :: account where
  "demo_alice = \<lparr>acc_id = 1, email = ''alice@example.com'', password_hash = ''h1'',
     organization = None, webex_access_token = Some ''tok'', webex_refresh_token = Some ''ref'',
     webex_token_expires_at = None\<rparr>"

definition demo_bob :: account where
  "demo_bob = \<lparr>acc_id = 2, email = ''bob@example.com'', password_hash = ''h2'',
     organization = None, webex_access_token = None, webex_refresh_token = None,
     webex_token_expires_at = None\<rparr>"

definition demo_post :: post where
  "demo_post = \<lparr>post_id = 1, post_profile_id = 1, content = ''Hello'', likes = 1, liked_by = [1]\<rparr>"

definition demo_db :: db where
  "demo_db = \<lparr>accounts = [demo_alice, demo_bob],
     profiles = [\<lparr>prof_id = 1, prof_account_id = 1, prof_name = ''Room 9''\<rparr>,
                 \<lparr>prof_id = 2, prof_account_id = 2, prof_name = ''Room 4''\<rparr>],
     relations = [], friend_requests = [], notifications = [],
     posts = [demo_post], invitations = [], meetings = []\<rparr>"

text \<open>
  A hashing primitive that, like the library's, raises on a password with a surrogate
  code point, which has no encoding.
\<close>

definition demo_hash :: "codepoint list \<Rightarrow> string outcome" where
  "demo_hash pw =
     (if list_ex (\<lambda>c. 55296 \<le> c \<and> c \<le> 57343) pw then Raises ''UnicodeEncodeError''
      else Returns ''pbkdf2:sha256'')"

definition strong_password :: "codepoint list" where
  "strong_password = map ord ''Str0ng!Pass''"

definition weak_password :: "codepoint list" where
  "weak_password = map ord ''weak''"


definition demo_registration :: "string \<Rightarrow> codepoint list \<Rightarrow> register_data" where
  "demo_registration e pw = \<lparr>reg_email = Some e, reg_password = Some pw, reg_organization = None\<rparr>"

definition demo_builtins :: builtins where
  "demo_builtins = \<lparr>int_of_string = (\<lambda>t. None), fromisoformat = (\<lambda>t. None)\<rparr>"

definition demo_meeting_data :: meeting_data where
  "demo_meeting_data = \<lparr>md_title = Value ''Pen pals'', md_start_time = JStr ''not a date'',
     md_end_time = JNull, md_classroom_id = JInt 2\<rparr>"

text \<open>
  The invitation with the default window: it starts now and ends one hour later.
\<close>

definition default_invitation ::
  "db \<Rightarrow> datetime \<Rightarrow> profile \<Rightarrow> profile \<Rightarrow> meeting_data \<Rightarrow> meeting_invitation" where
  "default_invitation s now cp rp d =
     \<lparr>inv_id = next_id (map inv_id (invitations s)),
      inv_sender_profile_id = prof_id cp,
      inv_receiver_profile_id = prof_id rp,
      inv_title = (case md_title d of
                     Absent \<Rightarrow> Some ''Classroom Meeting''
                   | Null \<Rightarrow> None
                   | Value t \<Rightarrow> Some t),
      inv_start_time = now,
      inv_end_time = now + 3600,
      inv_status = ''pending'',
      inv_meeting_id = None\<rparr>"

text \<open>
  A pending invitation of the first classroom to the second and one in the other
  direction, the first invitation once accepted, an organizer whose token has expired,
  and gateways that answer, that refuse to refresh a token, and that fail to create a
  meeting.
\<close>

definition demo_invitation :: meeting_invitation where
  "demo_invitation = \<lparr>inv_id = 1, inv_sender_profile_id = 1, inv_receiver_profile_id = 2,
     inv_title = Some ''Pen pals'', inv_start_time = 5000, inv_end_time = 8600,
     inv_status = ''pending'', inv_meeting_id = None\<rparr>"

definition demo_invitation_back :: meeting_invitation where
  "demo_invitation_back = \<lparr>inv_id = 2, inv_sender_profile_id = 2, inv_receiver_profile_id = 1,
     inv_title = Some ''Return visit'', inv_start_time = 9000, inv_end_time = 9900,
     inv_status = ''pending'', inv_meeting_id = None\<rparr>"

definition demo_db_invited :: db where
  "demo_db_invited = demo_db\<lparr>invitations := [demo_invitation, demo_invitation_back]\<rparr>"


definition demo_db_expired :: db where
  "demo_db_expired =
     demo_db_invited\<lparr>accounts := [demo_alice\<lparr>webex_token_expires_at := Some 10\<rparr>, demo_bob]\<rparr>"

definition demo_refresh :: "string option \<Rightarrow> token_data outcome" where
  "demo_refresh t = Raises ''invalid_grant''"

definition demo_create ::
  "string option \<Rightarrow> string option \<Rightarrow> datetime \<Rightarrow> datetime \<Rightarrow> webex_meeting option outcome" where
  "demo_create tok title st en =
     Returns (Some \<lparr>wx_id = Some ''wx-1'', wx_title = Absent,
                    wx_webLink = Some ''https://meet.example/wx-1'',
                    wx_password = Some ''pw''\<rparr>)"

definition demo_create_down ::
  "string option \<Rightarrow> string option \<Rightarrow> datetime \<Rightarrow> datetime \<Rightarrow> webex_meeting option outcome" where
  "demo_create_down tok title st en = Raises ''503 Service Unavailable''"

definition demo_ws :: webex_service where
  "demo_ws = \<lparr>refresh_access_token = demo_refresh, create_meeting = demo_create\<rparr>"

definition demo_ws_down :: webex_service where
  "demo_ws_down = \<lparr>refresh_access_token = demo_refresh, create_meeting = demo_create_down\<rparr>"

text \<open>
  A pending friend request of the second classroom to the first; the same with a pending
  request in the other direction, and with a second copy of itself; a relation between the
  two classrooms that is not an accepted one; and the body with which the first account
  asks for the friendship of the second classroom.
\<close>

definition demo_request :: friend_request where
  "demo_request = \<lparr>fr_id = 1, fr_sender_profile_id = 2, fr_receiver_profile_id = 1,
     fr_status = ''pending''\<rparr>"

definition demo_db_requested :: db where
  "demo_db_requested = demo_db\<lparr>friend_requests := [demo_request]\<rparr>"

definition demo_db_crossed :: db where
  "demo_db_crossed =
     demo_db\<lparr>friend_requests :=
       [demo_request,
        \<lparr>fr_id = 2, fr_sender_profile_id = 1, fr_receiver_profile_id = 2,
         fr_status = ''pending''\<rparr>]\<rparr>"

definition demo_db_twice :: db where
  "demo_db_twice = demo_db\<lparr>friend_requests := [demo_request, demo_request\<lparr>fr_id := 2\<rparr>]\<rparr>"

definition demo_db_acquainted :: db where
  "demo_db_acquainted =
     demo_db\<lparr>relations :=
       [\<lparr>rel_id = 1, from_profile_id = 1, to_profile_id = 2, rel_status = ''pending''\<rparr>]\<rparr>"

definition demo_friend_data :: friend_data where
  "demo_friend_data = \<lparr>classroomId = Some 2\<rparr>"

section \<open>Properties of the feed\<close>

lemma get_account_id: "get_account s i = Some a \<Longrightarrow> acc_id a = i"
  by (auto simp: get_account_def find_Some_iff)

lemma get_post_id: "get_post s i = Some p \<Longrightarrow> post_id p = i"
  by (auto simp: get_post_def find_Some_iff)

lemma find_map_commit:
  "find (\<lambda>p. post_id p = q) (map (\<lambda>r. if post_id r = post_id p' then p' else r) ps) =
     (if q = post_id p' then map_option (\<lambda>_. p') (find (\<lambda>p. post_id p = q) ps)
      else find (\<lambda>p. post_id p = q) ps)"
  by (induction ps) auto

lemma get_post_commit:
  "get_post (commit_post p' s) q =
     (if q = post_id p' then map_option (\<lambda>_. p') (get_post s q) else get_post s q)"
  by (simp add: get_post_def commit_post_def find_map_commit)

lemma like_post_already:
  assumes "get_account s u = Some a" and "get_post s pid = Some p" and "u \<in> set (liked_by p)"
  shows "like_post s u pid = (s, jsonify_with ''Already liked'' (Likes (likes p)) 200)"
  using assms get_account_id[OF assms(1)] by (simp add: like_post_def)

lemma like_post_new:
  assumes "get_account s u = Some a" and "get_post s pid = Some p" and "u \<notin> set (liked_by p)"
  shows "like_post s u pid =
           (commit_post (p\<lparr>liked_by := liked_by p @ [u], likes := likes p + 1\<rparr>) s,
            jsonify_with ''Post liked'' (Likes (likes p + 1)) 200)"
  using assms get_account_id[OF assms(1)] by (simp add: like_post_def Let_def)

lemma unlike_post_not_liked:
  assumes "get_account s u = Some a" and "get_post s pid = Some p" and "u \<notin> set (liked_by p)"
  shows "unlike_post s u pid = (s, jsonify_with ''Not liked yet'' (Likes (likes p)) 200)"
  using assms get_account_id[OF assms(1)] by (simp add: unlike_post_def)

lemma unlike_post_liked:
  assumes "get_account s u = Some a" and "get_post s pid = Some p" and "u \<in> set (liked_by p)"
  shows "unlike_post s u pid =
           (commit_post (p\<lparr>liked_by := remove1 u (liked_by p),
                           likes := (if likes p > 0 then likes p - 1 else likes p)\<rparr>) s,
            jsonify_with ''Post unliked''
              (Likes (if likes p > 0 then likes p - 1 else likes p)) 200)"
  using assms get_account_id[OF assms(1)] by (simp add: unlike_post_def Let_def)

lemma like_post_unchanged:
  "get_account s u = None \<or> get_post s pid = None \<Longrightarrow> fst (like_post s u pid) = s"
  by (auto simp: like_post_def split: option.splits)

lemma unlike_post_unchanged:
  "get_account s u = None \<or> get_post s pid = None \<Longrightarrow> fst (unlike_post s u pid) = s"
  by (auto simp: unlike_post_def split: option.splits)

lemma consistent_like:
  "likes_consistent p \<Longrightarrow> u \<notin> set (liked_by p) \<Longrightarrow>
   likes_consistent (p\<lparr>liked_by := liked_by p @ [u], likes := likes p + 1\<rparr>)"
  by (simp add: likes_consistent_def)

lemma consistent_unlike:
  assumes c: "likes_consistent p" and m: "u \<in> set (liked_by p)"
  shows "likes_consistent (p\<lparr>liked_by := remove1 u (liked_by p),
               likes := (if likes p > 0 then likes p - 1 else likes p)\<rparr>)"
proof -
  from m obtain n where "length (liked_by p) = Suc n"
    by (cases "liked_by p") auto
  then have "int (length (liked_by p) - Suc 0) = int (length (liked_by p)) - 1"
    by simp
  moreover from m have "liked_by p \<noteq> []" by auto
  ultimately show ?thesis using c m
    by (simp add: likes_consistent_def distinct_card length_remove1)
qed

lemma like_post_keeps:
  assumes g: "get_post s q = Some p" and c: "likes_consistent p"
  shows "\<exists>p'. get_post (fst (like_post s u pid)) q = Some p' \<and> likes_consistent p'"
proof (cases "get_account s u = None \<or> get_post s pid = None")
  case True
  with g c like_post_unchanged[OF True] show ?thesis by simp
next
  case False
  then obtain a p0 where a: "get_account s u = Some a" and p0: "get_post s pid = Some p0"
    by auto
  have id0: "post_id p0 = pid" using p0 by (rule get_post_id)
  show ?thesis
  proof (cases "u \<in> set (liked_by p0)")
    case True
    with g c like_post_already[OF a p0] show ?thesis by simp
  next
    case nl: False
    show ?thesis
    proof (cases "q = pid")
      case True
      with g p0 have "p0 = p" by simp
      with True g c id0 nl show ?thesis
        by (simp add: like_post_new[OF a p0 nl] get_post_commit consistent_like)
    next
      case False
      with g c id0 show ?thesis
        by (simp add: like_post_new[OF a p0 nl] get_post_commit)
    qed
  qed
qed

lemma unlike_post_keeps:
  assumes g: "get_post s q = Some p" and c: "likes_consistent p"
  shows "\<exists>p'. get_post (fst (unlike_post s u pid)) q = Some p' \<and> likes_consistent p'"
proof (cases "get_account s u = None \<or> get_post s pid = None")
  case True
  with g c unlike_post_unchanged[OF True] show ?thesis by simp
next
  case False
  then obtain a p0 where a: "get_account s u = Some a" and p0: "get_post s pid = Some p0"
    by auto
  have id0: "post_id p0 = pid" using p0 by (rule get_post_id)
  show ?thesis
  proof (cases "u \<in> set (liked_by p0)")
    case False
    with g c unlike_post_not_liked[OF a p0] show ?thesis by simp
  next
    case l: True
    show ?thesis
    proof (cases "q = pid")
      case True
      with g p0 have e: "p0 = p" by simp
      have "likes_consistent (p0\<lparr>liked_by := remove1 u (liked_by p0),
               likes := (if likes p0 > 0 then likes p0 - 1 else likes p0)\<rparr>)"
        using c l unfolding e by (rule consistent_unlike)
      with True g id0 show ?thesis
        by (simp add: unlike_post_liked[OF a p0 l] get_post_commit del: if_split cong: if_cong)
    next
      case False
      with g c id0 show ?thesis
        by (simp add: unlike_post_liked[OF a p0 l] get_post_commit)
    qed
  qed
qed

text \<open>
  Claim C6. If the counter of a post agrees with its like-set (\<open>likes_consistent\<close>), it
  still does after any \<open>like_post\<close> and any \<open>unlike_post\<close>, whoever calls and
  whichever post is addressed: the handlers change the collection and the counter together.
\<close>

theorem likes_counter_invariant:
  assumes "get_post s q = Some p" and "likes_consistent p"
  shows "(\<exists>p'. get_post (fst (like_post s u pid)) q = Some p' \<and> likes_consistent p') \<and>
         (\<exists>p'. get_post (fst (unlike_post s u pid)) q = Some p' \<and> likes_consistent p')"
  using like_post_keeps[OF assms] unlike_post_keeps[OF assms] by blast

lemma demo_get_post: "get_post demo_db 1 = Some demo_post"
  by (simp add: get_post_def demo_db_def demo_post_def)

lemma demo_post_consistent: "likes_consistent demo_post"
  by (simp add: likes_consistent_def demo_post_def)

theorem likes_counter_invariant_witness:
  "get_post demo_db 1 = Some demo_post \<and> likes_consistent demo_post \<and>
   (\<exists>p'. get_post (fst (like_post demo_db 2 1)) 1 = Some p' \<and> likes_consistent p') \<and>
   (\<exists>p'. get_post (fst (unlike_post demo_db 1 1)) 1 = Some p' \<and> likes_consistent p')"
  using likes_counter_invariant[OF demo_get_post demo_post_consistent, of 2 1]
        likes_counter_invariant[OF demo_get_post demo_post_consistent, of 1 1]
        demo_get_post demo_post_consistent
  by blast


lemma set_remove1_distinct: "distinct xs \<Longrightarrow> set (remove1 x xs) = set xs - {x}"
  by simp

text \<open>
  Claim C7. Liking a post the account already likes and unliking one it does not like
  change nothing and answer 200 with the current count. Otherwise the account enters or
  leaves the like-set and nothing else in it changes; a like adds one to the counter, an
  unlike takes one away unless the counter is not positive, so a counter that is not
  negative stays so.
\<close>

theorem like_unlike_toggle:
  assumes a: "get_account s u = Some a" and p: "get_post s pid = Some p"
    and d: "distinct (liked_by p)"
  shows "(u \<in> set (liked_by p) \<longrightarrow>
            like_post s u pid = (s, jsonify_with ''Already liked'' (Likes (likes p)) 200)) \<and>
         (u \<notin> set (liked_by p) \<longrightarrow>
            unlike_post s u pid = (s, jsonify_with ''Not liked yet'' (Likes (likes p)) 200)) \<and>
         (u \<notin> set (liked_by p) \<longrightarrow>
            (\<exists>p'. get_post (fst (like_post s u pid)) pid = Some p' \<and>
                  set (liked_by p') = insert u (set (liked_by p)) \<and>
                  likes p' = likes p + 1 \<and>
                  snd (like_post s u pid) = jsonify_with ''Post liked'' (Likes (likes p')) 200)) \<and>
         (u \<in> set (liked_by p) \<longrightarrow>
            (\<exists>p'. get_post (fst (unlike_post s u pid)) pid = Some p' \<and>
                  set (liked_by p') = set (liked_by p) - {u} \<and>
                  likes p' = (if 0 < likes p then likes p - 1 else likes p) \<and>
                  (0 \<le> likes p \<longrightarrow> 0 \<le> likes p') \<and>
                  snd (unlike_post s u pid) =
                    jsonify_with ''Post unliked'' (Likes (likes p')) 200))"
proof (intro conjI impI)
  assume "u \<in> set (liked_by p)"
  then show "like_post s u pid = (s, jsonify_with ''Already liked'' (Likes (likes p)) 200)"
    by (rule like_post_already[OF a p])
next
  assume "u \<notin> set (liked_by p)"
  then show "unlike_post s u pid = (s, jsonify_with ''Not liked yet'' (Likes (likes p)) 200)"
    by (rule unlike_post_not_liked[OF a p])
next
  assume n: "u \<notin> set (liked_by p)"
  have id: "post_id p = pid" using p by (rule get_post_id)
  show "\<exists>p'. get_post (fst (like_post s u pid)) pid = Some p' \<and>
                  set (liked_by p') = insert u (set (liked_by p)) \<and>
                  likes p' = likes p + 1 \<and>
                  snd (like_post s u pid) = jsonify_with ''Post liked'' (Likes (likes p')) 200"
    using p id by (simp add: like_post_new[OF a p n] get_post_commit)
next
  assume l: "u \<in> set (liked_by p)"
  have id: "post_id p = pid" using p by (rule get_post_id)
  show "\<exists>p'. get_post (fst (unlike_post s u pid)) pid = Some p' \<and>
                  set (liked_by p') = set (liked_by p) - {u} \<and>
                  likes p' = (if 0 < likes p then likes p - 1 else likes p) \<and>
                  (0 \<le> likes p \<longrightarrow> 0 \<le> likes p') \<and>
                  snd (unlike_post s u pid) =
                    jsonify_with ''Post unliked'' (Likes (likes p')) 200"
    using p id d by (simp add: unlike_post_liked[OF a p l] get_post_commit)
qed

lemma demo_get_alice: "get_account demo_db 1 = Some demo_alice"
  by (simp add: get_account_def demo_db_def demo_alice_def)

lemma demo_get_bob: "get_account demo_db 2 = Some demo_bob"
  by (simp add: get_account_def demo_db_def demo_alice_def demo_bob_def)

lemma demo_post_distinct: "distinct (liked_by demo_post)"
  by (simp add: demo_post_def)

theorem like_unlike_toggle_witness:
  "get_account demo_db 1 = Some demo_alice \<and> get_account demo_db 2 = Some demo_bob \<and>
   get_post demo_db 1 = Some demo_post \<and> distinct (liked_by demo_post) \<and>
   1 \<in> set (liked_by demo_post) \<and> 2 \<notin> set (liked_by demo_post) \<and>
   like_post demo_db 1 1 = (demo_db, jsonify_with ''Already liked'' (Likes 1) 200) \<and>
   unlike_post demo_db 2 1 = (demo_db, jsonify_with ''Not liked yet'' (Likes 1) 200) \<and>
   (\<exists>p'. get_post (fst (like_post demo_db 2 1)) 1 = Some p' \<and>
         set (liked_by p') = {1, 2} \<and> likes p' = 2) \<and>
   (\<exists>p'. get_post (fst (unlike_post demo_db 1 1)) 1 = Some p' \<and>
         set (liked_by p') = {} \<and> likes p' = 0)"
proof -
  have m1: "1 \<in> set (liked_by demo_post)" and m2: "2 \<notin> set (liked_by demo_post)"
    and l: "likes demo_post = 1" and sl: "set (liked_by demo_post) = {1}"
    by (simp_all add: demo_post_def)
  from like_unlike_toggle[OF demo_get_alice demo_get_post demo_post_distinct]
       like_unlike_toggle[OF demo_get_bob demo_get_post demo_post_distinct]
       m1 m2 l sl demo_get_alice demo_get_bob demo_get_post demo_post_distinct
  show ?thesis by (auto simp: insert_commute)
qed

section \<open>Properties of the registration\<close>

lemma in_capital_letters: "c \<in> set capital_letters \<longleftrightarrow> is_uppercase c"
  unfolding capital_letters_def set_upt is_uppercase_def by (auto simp: ord_def)

lemma in_lowercase_letters: "c \<in> set lowercase_letters \<longleftrightarrow> is_lowercase c"
  unfolding lowercase_letters_def set_upt is_lowercase_def by (auto simp: ord_def)

lemma in_digits: "c \<in> set digits \<longleftrightarrow> is_digit c"
proof
  assume "c \<in> set digits"
  then show "is_digit c" by (auto simp: digits_def is_digit_def ord_def)
next
  assume "is_digit c"
  then have "c - 48 < 10" and "c = 48 + (c - 48)" by (auto simp: is_digit_def)
  then have "c \<in> (\<lambda>i. 48 + i) ` {0..<10}" by (metis atLeastLessThan_iff image_eqI zero_le)
  then show "c \<in> set digits" by (simp add: digits_def ord_def)
qed

lemma password_valid_iff_policy: "password_valid pw \<longleftrightarrow> password_policy pw"
  by (simp add: password_valid_def password_policy_def has_upper_def has_lower_def
      has_digit_def has_special_def list_ex_iff in_capital_letters in_lowercase_letters
      in_digits)

lemma register_weak:
  assumes "reg_password d = Some pw" and "\<not> password_valid pw"
  shows "fst (register h s (Some d)) = s \<and> code (snd (register h s (Some d))) = 400"
  using assms by (cases "reg_email d") (simp_all add: register_def jsonify_def)

lemma register_existing:
  assumes "reg_email d = Some e" and "e \<noteq> []" and "reg_password d = Some pw"
    and "password_valid pw" and "find_account_by_email s e \<noteq> None"
  shows "register h s (Some d) = (s, jsonify ''Account already exists'' 409)"
proof -
  from assms(4) have "pw \<noteq> []" by (auto simp: password_valid_def)
  with assms show ?thesis by (simp add: register_def)
qed




lemma strong_password_policy: "password_policy strong_password"
  by (simp add: password_policy_def strong_password_def ord_def is_uppercase_def
      is_lowercase_def is_digit_def)

lemma weak_password_policy: "\<not> password_policy weak_password"
  by (simp add: password_policy_def weak_password_def)

lemma demo_find_alice: "find_account_by_email demo_db ''alice@example.com'' \<noteq> None"
  by (simp add: find_account_by_email_def demo_db_def demo_alice_def)






text \<open>
  Claim C8 as it is stated fails: the password is validated before the email is looked
  up, so a second registration of \<open>alice@example.com\<close> with the password
  \<open>weak\<close> is answered 400, not 409.
\<close>

theorem register_duplicate_weak_password:
  "find_account_by_email demo_db ''alice@example.com'' \<noteq> None \<and>
   register demo_hash demo_db (Some (demo_registration ''alice@example.com'' weak_password))
     = (demo_db, jsonify
          ''Password must be at least 8 characters and include one uppercase, one lowercase, one digit, and one special character.''
          400) \<and>
   code (snd (register demo_hash demo_db
     (Some (demo_registration ''alice@example.com'' weak_password)))) \<noteq> 409"
  using demo_find_alice
  by (simp add: register_def demo_registration_def weak_password_def password_valid_def
      jsonify_def)

text \<open>
  Claim C8, amended. A registration with an email that an account already has creates no
  account; it is answered 409 when the password satisfies the policy and 400 when it does
  not.
\<close>

theorem register_duplicate_email:
  assumes "find_account_by_email s e \<noteq> None" and "e \<noteq> []"
    and "reg_email d = Some e" and "reg_password d = Some pw"
  shows "fst (register h s (Some d)) = s \<and>
         (password_policy pw \<longrightarrow>
            register h s (Some d) = (s, jsonify ''Account already exists'' 409)) \<and>
         (\<not> password_policy pw \<longrightarrow> code (snd (register h s (Some d))) = 400)"
proof (cases "password_valid pw")
  case True
  with assms register_existing[of d e pw s h] show ?thesis
    by (simp add: password_valid_iff_policy)
next
  case False
  with register_weak[OF assms(4) False, of h s] show ?thesis
    by (simp add: password_valid_iff_policy)
qed

theorem register_duplicate_email_witness:
  "find_account_by_email demo_db ''alice@example.com'' \<noteq> None \<and>
   password_policy strong_password \<and> \<not> password_policy weak_password \<and>
   register demo_hash demo_db (Some (demo_registration ''alice@example.com'' strong_password))
     = (demo_db, jsonify ''Account already exists'' 409) \<and>
   code (snd (register demo_hash demo_db
     (Some (demo_registration ''alice@example.com'' weak_password)))) = 400"
proof -
  have ne: "''alice@example.com'' \<noteq> []" by simp
  have e1: "reg_email (demo_registration ''alice@example.com'' strong_password)
              = Some ''alice@example.com''"
    and p1: "reg_password (demo_registration ''alice@example.com'' strong_password)
              = Some strong_password"
    and e2: "reg_email (demo_registration ''alice@example.com'' weak_password)
              = Some ''alice@example.com''"
    and p2: "reg_password (demo_registration ''alice@example.com'' weak_password)
              = Some weak_password"
    by (simp_all add: demo_registration_def)
  from register_duplicate_email[OF demo_find_alice ne e1 p1, of demo_hash]
       register_duplicate_email[OF demo_find_alice ne e2 p2, of demo_hash]
       strong_password_policy weak_password_policy demo_find_alice
  show ?thesis by simp
qed

section \<open>Properties of the creation of an invitation\<close>

lemma time_window_default:
  "falsy_json start_time_str \<or> falsy_json end_time_str \<Longrightarrow>
   time_window b now start_time_str end_time_str = Inr (now, now + 3600)"
  by (simp add: time_window_def)

lemma create_webex_meeting_ignores:
  assumes "falsy_json (md_start_time d) \<or> falsy_json (md_end_time d)"
  shows "create_webex_meeting b now s u (Some d) =
           create_webex_meeting b now s u
             (Some (d\<lparr>md_start_time := JNull, md_end_time := JNull\<rparr>))"
proof -
  have 1: "time_window b now (md_start_time d) (md_end_time d) = Inr (now, now + 3600)"
    using assms by (rule time_window_default)
  have 2: "time_window b now JNull JNull = Inr (now, now + 3600)"
    by (simp add: time_window_def falsy_json_def)
  show ?thesis
    by (simp add: create_webex_meeting_def Let_def 1 2 cong: option.case_cong if_cong)
qed

lemma create_webex_meeting_default:
  assumes "falsy_json (md_start_time d) \<or> falsy_json (md_end_time d)"
    and "get_account s u = Some a" and "first_profile s a = Some cp"
    and "\<not> falsy_json (md_classroom_id d)" and "\<not> is_dummy (md_classroom_id d)"
    and "to_int b (md_classroom_id d) = Some cid" and "get_profile_int s cid = Some rp"
    and "prof_id cp \<noteq> prof_id rp" and "md_title d \<noteq> Null"
  shows "fst (create_webex_meeting b now s u (Some d)) =
           s\<lparr>invitations := invitations s @ [default_invitation s now cp rp d]\<rparr> \<and>
         code (snd (create_webex_meeting b now s u (Some d))) = 201"
  using assms(2-) time_window_default[OF assms(1), of b now]
  by (cases "md_title d")
     (simp_all add: create_webex_meeting_def Let_def default_invitation_def jsonify_with_def
        invitation_insertable_def)

lemma create_webex_meeting_cases:
  assumes "falsy_json (md_start_time d) \<or> falsy_json (md_end_time d)"
  shows "(fst (create_webex_meeting b now s u (Some d)) = s \<and>
          code (snd (create_webex_meeting b now s u (Some d))) \<noteq> 201) \<or>
         (\<exists>v. fst (create_webex_meeting b now s u (Some d)) =
                 s\<lparr>invitations := invitations s @ [v]\<rparr> \<and>
              inv_start_time v = now \<and> inv_end_time v = now + 3600 \<and>
              inv_status v = ''pending'' \<and>
              code (snd (create_webex_meeting b now s u (Some d))) = 201)"
  using time_window_default[OF assms, of b now]
  apply (simp add: create_webex_meeting_def Let_def jsonify_def jsonify_with_def unhandled_def
      invitation_insertable_def split: option.splits json_field.splits)
  apply (intro conjI impI allI)
   apply (rule exI, rule conjI, rule refl, simp)+
  done


text \<open>
  Claim C10. When exactly one of \<open>start_time\<close> and \<open>end_time\<close> is supplied (the
  other is missing, null or empty), \<open>create_webex_meeting\<close> answers as if neither had
  been sent, so the supplied value is ignored, even one that does not parse or is no
  string. An invitation that the request persists starts now and ends one hour later; and
  the request does persist it, with the answer 201, whenever the caller and the receiver
  pass the checks that come before the window and the title is not \<open>null\<close> (a
  \<open>null\<close> title makes the commit raise, and nothing is persisted).
\<close>

theorem create_invitation_single_time_ignored:
  assumes one: "falsy_json (md_start_time d) \<noteq> falsy_json (md_end_time d)"
  shows "create_webex_meeting b now s u (Some d) =
           create_webex_meeting b now s u
             (Some (d\<lparr>md_start_time := JNull, md_end_time := JNull\<rparr>)) \<and>
         ((fst (create_webex_meeting b now s u (Some d)) = s \<and>
           code (snd (create_webex_meeting b now s u (Some d))) \<noteq> 201) \<or>
          (\<exists>v. fst (create_webex_meeting b now s u (Some d)) =
                  s\<lparr>invitations := invitations s @ [v]\<rparr> \<and>
               inv_start_time v = now \<and> inv_end_time v = now + 3600 \<and>
               inv_status v = ''pending'' \<and>
               code (snd (create_webex_meeting b now s u (Some d))) = 201)) \<and>
         (\<forall>a cp cid rp.
            get_account s u = Some a \<and> first_profile s a = Some cp \<and>
            \<not> falsy_json (md_classroom_id d) \<and> \<not> is_dummy (md_classroom_id d) \<and>
            to_int b (md_classroom_id d) = Some cid \<and> get_profile_int s cid = Some rp \<and>
            prof_id cp \<noteq> prof_id rp \<and> md_title d \<noteq> Null \<longrightarrow>
            fst (create_webex_meeting b now s u (Some d)) =
              s\<lparr>invitations := invitations s @ [default_invitation s now cp rp d]\<rparr> \<and>
            code (snd (create_webex_meeting b now s u (Some d))) = 201)"
proof -
  from one have f: "falsy_json (md_start_time d) \<or> falsy_json (md_end_time d)" by auto
  show ?thesis
    using create_webex_meeting_ignores[OF f, of b now s u]
          create_webex_meeting_cases[OF f, of b now s u]
          create_webex_meeting_default[OF f, of s u _ _ b _ _ now]
    by blast
qed

theorem create_invitation_single_time_ignored_witness:
  "\<not> falsy_json (md_start_time demo_meeting_data) \<and>
   falsy_json (md_end_time demo_meeting_data) \<and>
   fromisoformat demo_builtins (strip_Z ''not a date'') = None \<and>
   create_webex_meeting demo_builtins 1000 demo_db 1 (Some demo_meeting_data) =
     create_webex_meeting demo_builtins 1000 demo_db 1
       (Some (demo_meeting_data\<lparr>md_start_time := JNull, md_end_time := JNull\<rparr>)) \<and>
   invitations (fst (create_webex_meeting demo_builtins 1000 demo_db 1 (Some demo_meeting_data))) =
     [\<lparr>inv_id = 1, inv_sender_profile_id = 1, inv_receiver_profile_id = 2,
       inv_title = Some ''Pen pals'', inv_start_time = 1000, inv_end_time = 4600,
       inv_status = ''pending'', inv_meeting_id = None\<rparr>] \<and>
   code (snd (create_webex_meeting demo_builtins 1000 demo_db 1 (Some demo_meeting_data))) = 201"
proof -
  have one: "falsy_json (md_start_time demo_meeting_data) \<noteq>
             falsy_json (md_end_time demo_meeting_data)"
    and s: "\<not> falsy_json (md_start_time demo_meeting_data)"
    and e: "falsy_json (md_end_time demo_meeting_data)"
    by (simp_all add: demo_meeting_data_def falsy_json_def)
  have fp: "first_profile demo_db demo_alice
              = Some \<lparr>prof_id = 1, prof_account_id = 1, prof_name = ''Room 9''\<rparr>"
    by (simp add: first_profile_def demo_db_def demo_alice_def)
  have c: "\<not> falsy_json (md_classroom_id demo_meeting_data)"
      "\<not> is_dummy (md_classroom_id demo_meeting_data)"
      "to_int demo_builtins (md_classroom_id demo_meeting_data) = Some 2"
      "md_title demo_meeting_data \<noteq> Null"
    by (simp_all add: demo_meeting_data_def falsy_json_def is_dummy_def to_int_def)
  have rp: "get_profile_int demo_db 2
              = Some \<lparr>prof_id = 2, prof_account_id = 2, prof_name = ''Room 4''\<rparr>"
    by (simp add: get_profile_int_def get_profile_def demo_db_def)
  have d: "default_invitation demo_db 1000
             \<lparr>prof_id = 1, prof_account_id = 1, prof_name = ''Room 9''\<rparr>
             \<lparr>prof_id = 2, prof_account_id = 2, prof_name = ''Room 4''\<rparr> demo_meeting_data =
           \<lparr>inv_id = 1, inv_sender_profile_id = 1, inv_receiver_profile_id = 2,
            inv_title = Some ''Pen pals'', inv_start_time = 1000, inv_end_time = 4600,
            inv_status = ''pending'', inv_meeting_id = None\<rparr>"
    by (simp add: default_invitation_def demo_db_def demo_meeting_data_def next_id_def)
  have i: "invitations demo_db = []" by (simp add: demo_db_def)
  have f: "fromisoformat demo_builtins (strip_Z ''not a date'') = None"
    by (simp add: demo_builtins_def)
  note T = create_invitation_single_time_ignored[OF one, of demo_builtins 1000 demo_db 1]
  from T have A: "create_webex_meeting demo_builtins 1000 demo_db 1 (Some demo_meeting_data) =
          create_webex_meeting demo_builtins 1000 demo_db 1
            (Some (demo_meeting_data\<lparr>md_start_time := JNull, md_end_time := JNull\<rparr>))"
    by (rule conjunct1)
  have G: "get_account demo_db 1 = Some demo_alice \<and>
           first_profile demo_db demo_alice
             = Some \<lparr>prof_id = 1, prof_account_id = 1, prof_name = ''Room 9''\<rparr> \<and>
           \<not> falsy_json (md_classroom_id demo_meeting_data) \<and>
           \<not> is_dummy (md_classroom_id demo_meeting_data) \<and>
           to_int demo_builtins (md_classroom_id demo_meeting_data) = Some 2 \<and>
           get_profile_int demo_db 2
             = Some \<lparr>prof_id = 2, prof_account_id = 2, prof_name = ''Room 4''\<rparr> \<and>
           prof_id \<lparr>prof_id = 1, prof_account_id = 1, prof_name = ''Room 9''\<rparr> \<noteq>
           prof_id \<lparr>prof_id = 2, prof_account_id = 2, prof_name = ''Room 4''\<rparr> \<and>
           md_title demo_meeting_data \<noteq> Null"
    using demo_get_alice fp c rp by simp
  have B: "fst (create_webex_meeting demo_builtins 1000 demo_db 1 (Some demo_meeting_data)) =
           demo_db\<lparr>invitations := invitations demo_db @
             [default_invitation demo_db 1000
                \<lparr>prof_id = 1, prof_account_id = 1, prof_name = ''Room 9''\<rparr>
                \<lparr>prof_id = 2, prof_account_id = 2, prof_name = ''Room 4''\<rparr> demo_meeting_data]\<rparr> \<and>
     code (snd (create_webex_meeting demo_builtins 1000 demo_db 1 (Some demo_meeting_data))) = 201"
    by (rule T[THEN conjunct2, THEN conjunct2, rule_format, OF G])
  from B have C: "invitations (fst (create_webex_meeting demo_builtins 1000 demo_db 1
                    (Some demo_meeting_data))) =
     [\<lparr>inv_id = 1, inv_sender_profile_id = 1, inv_receiver_profile_id = 2,
       inv_title = Some ''Pen pals'', inv_start_time = 1000, inv_end_time = 4600,
       inv_status = ''pending'', inv_meeting_id = None\<rparr>]"
    unfolding d i by simp
  show ?thesis
    by (intro conjI) (rule s e f A C B[THEN conjunct2])+
qed

section \<open>Properties of the invitation workflow\<close>

lemma commit_account_tables:
  "invitations (commit_account a s) = invitations s"
  "meetings (commit_account a s) = meetings s"
  "profiles (commit_account a s) = profiles s"
  by (simp_all add: commit_account_def)

lemma accept_failure_keeps:
  "code (snd (accept_invitation ws now s u i)) \<noteq> 201 \<longrightarrow>
     invitations (fst (accept_invitation ws now s u i)) = invitations s \<and>
     meetings (fst (accept_invitation ws now s u i)) = meetings s"
  by (simp add: accept_invitation_def Let_def jsonify_def jsonify_with_def unhandled_def
      commit_account_tables split: option.splits sum.splits outcome.splits)

lemma get_invitation_cong:
  "invitations s' = invitations s \<Longrightarrow> get_invitation s' i = get_invitation s i"
  by (simp add: get_invitation_def)

lemma accept_no_token:
  assumes "get_account s u = Some a" and "first_profile s a = Some p"
    and "get_invitation s i = Some v" and "inv_receiver_profile_id v = prof_id p"
    and "inv_status v = ''pending''"
    and "get_profile s (inv_sender_profile_id v) = Some sp"
    and "get_account s (prof_account_id sp) = Some sa"
    and "falsy (webex_access_token sa)"
  shows "accept_invitation ws now s u i =
           (s, jsonify ''The meeting organizer's WebEx account is not connected'' 403)"
  using assms by (simp add: accept_invitation_def)


lemma refresh_raises:
  assumes "webex_token_expires_at sa = Some x" and "x < now"
    and "refresh_access_token ws (webex_refresh_token sa) = Raises e"
  shows "refresh_if_expired ws now sa =
           Inl (jsonify
             ''Failed to refresh organizer's WebEx session. Please try again later.'' 403)"
  using assms by (simp add: refresh_if_expired_def)

lemma accept_refresh_fails:
  assumes "get_account s u = Some a" and "first_profile s a = Some p"
    and "get_invitation s i = Some v" and "inv_receiver_profile_id v = prof_id p"
    and "inv_status v = ''pending''"
    and "get_profile s (inv_sender_profile_id v) = Some sp"
    and "get_account s (prof_account_id sp) = Some sa"
    and "\<not> falsy (webex_access_token sa)"
    and "refresh_if_expired ws now sa = Inl r"
  shows "accept_invitation ws now s u i = (s, r)"
  using assms by (simp add: accept_invitation_def)


lemma accept_create_fails:
  assumes "get_account s u = Some a" and "first_profile s a = Some p"
    and "get_invitation s i = Some v" and "inv_receiver_profile_id v = prof_id p"
    and "inv_status v = ''pending''"
    and "get_profile s (inv_sender_profile_id v) = Some sp"
    and "get_account s (prof_account_id sp) = Some sa"
    and "\<not> falsy (webex_access_token sa)"
    and "refresh_if_expired ws now sa = Inr sa'"
    and "create_meeting ws (webex_access_token sa') (inv_title v) (inv_start_time v)
           (inv_end_time v) = Raises e"
  shows "snd (accept_invitation ws now s u i) =
           jsonify (''Failed to create WebEx meeting: '' @ e) 500"
  using assms by (simp add: accept_invitation_def Let_def)


text \<open>
  Claim C2. Let an invitation be pending. Whatever makes \<open>accept_invitation\<close> fail (any
  answer other than 201), the invitation is afterwards the row it was, so still pending,
  and the table of meetings is what it was. For a caller the invitation is addressed to,
  the three failures of the claim are these: the organizer's account holds no token (403,
  state unchanged); the token has expired and the refresh raises (403, state unchanged);
  the gateway raises when it is asked to create the meeting (500).
\<close>

theorem accept_failure_leaves_pending:
  assumes v: "get_invitation s i = Some v" and pending: "inv_status v = ''pending''"
  shows "(code (snd (accept_invitation ws now s u i)) \<noteq> 201 \<longrightarrow>
            get_invitation (fst (accept_invitation ws now s u i)) i = Some v \<and>
            invitations (fst (accept_invitation ws now s u i)) = invitations s \<and>
            meetings (fst (accept_invitation ws now s u i)) = meetings s) \<and>
         (\<forall>a p sp sa.
            get_account s u = Some a \<and> first_profile s a = Some p \<and>
            inv_receiver_profile_id v = prof_id p \<and>
            get_profile s (inv_sender_profile_id v) = Some sp \<and>
            get_account s (prof_account_id sp) = Some sa \<longrightarrow>
            (falsy (webex_access_token sa) \<longrightarrow>
               accept_invitation ws now s u i =
                 (s, jsonify ''The meeting organizer's WebEx account is not connected'' 403)) \<and>
            (\<not> falsy (webex_access_token sa) \<longrightarrow>
               (\<forall>x e. webex_token_expires_at sa = Some x \<and> x < now \<and>
                      refresh_access_token ws (webex_refresh_token sa) = Raises e \<longrightarrow>
                  accept_invitation ws now s u i =
                    (s, jsonify
                      ''Failed to refresh organizer's WebEx session. Please try again later.''
                      403)) \<and>
               (\<forall>sa' e. refresh_if_expired ws now sa = Inr sa' \<and>
                      create_meeting ws (webex_access_token sa') (inv_title v)
                        (inv_start_time v) (inv_end_time v) = Raises e \<longrightarrow>
                  snd (accept_invitation ws now s u i) =
                    jsonify (''Failed to create WebEx meeting: '' @ e) 500)))"
proof (intro conjI impI allI)
  assume f: "code (snd (accept_invitation ws now s u i)) \<noteq> 201"
  from accept_failure_keeps[of ws now s u i, rule_format, OF f]
  have k: "invitations (fst (accept_invitation ws now s u i)) = invitations s"
    and m: "meetings (fst (accept_invitation ws now s u i)) = meetings s"
    by (rule conjunct1, rule conjunct2)
  show "get_invitation (fst (accept_invitation ws now s u i)) i = Some v"
    unfolding get_invitation_cong[OF k] by (rule v)
  show "invitations (fst (accept_invitation ws now s u i)) = invitations s" by (rule k)
  show "meetings (fst (accept_invitation ws now s u i)) = meetings s" by (rule m)
next
  fix a p sp sa
  assume g: "get_account s u = Some a \<and> first_profile s a = Some p \<and>
            inv_receiver_profile_id v = prof_id p \<and>
            get_profile s (inv_sender_profile_id v) = Some sp \<and>
            get_account s (prof_account_id sp) = Some sa"
    and t: "falsy (webex_access_token sa)"
  from g have g1: "get_account s u = Some a" and g2: "first_profile s a = Some p"
    and g3: "inv_receiver_profile_id v = prof_id p"
    and g4: "get_profile s (inv_sender_profile_id v) = Some sp"
    and g5: "get_account s (prof_account_id sp) = Some sa" by simp_all
  show "accept_invitation ws now s u i =
          (s, jsonify ''The meeting organizer's WebEx account is not connected'' 403)"
    by (rule accept_no_token[OF g1 g2 v g3 pending g4 g5 t])
next
  fix a p sp sa x e
  assume g: "get_account s u = Some a \<and> first_profile s a = Some p \<and>
            inv_receiver_profile_id v = prof_id p \<and>
            get_profile s (inv_sender_profile_id v) = Some sp \<and>
            get_account s (prof_account_id sp) = Some sa"
    and t: "\<not> falsy (webex_access_token sa)"
    and r: "webex_token_expires_at sa = Some x \<and> x < now \<and>
         refresh_access_token ws (webex_refresh_token sa) = Raises e"
  from g have g1: "get_account s u = Some a" and g2: "first_profile s a = Some p"
    and g3: "inv_receiver_profile_id v = prof_id p"
    and g4: "get_profile s (inv_sender_profile_id v) = Some sp"
    and g5: "get_account s (prof_account_id sp) = Some sa" by simp_all
  from r have r1: "webex_token_expires_at sa = Some x" and r2: "x < now"
    and r3: "refresh_access_token ws (webex_refresh_token sa) = Raises e" by simp_all
  show "accept_invitation ws now s u i =
          (s, jsonify
            ''Failed to refresh organizer's WebEx session. Please try again later.'' 403)"
    by (rule accept_refresh_fails[OF g1 g2 v g3 pending g4 g5 t refresh_raises[OF r1 r2 r3]])
next
  fix a p sp sa sa' e
  assume g: "get_account s u = Some a \<and> first_profile s a = Some p \<and>
            inv_receiver_profile_id v = prof_id p \<and>
            get_profile s (inv_sender_profile_id v) = Some sp \<and>
            get_account s (prof_account_id sp) = Some sa"
    and t: "\<not> falsy (webex_access_token sa)"
    and r: "refresh_if_expired ws now sa = Inr sa' \<and>
         create_meeting ws (webex_access_token sa') (inv_title v)
           (inv_start_time v) (inv_end_time v) = Raises e"
  from g have g1: "get_account s u = Some a" and g2: "first_profile s a = Some p"
    and g3: "inv_receiver_profile_id v = prof_id p"
    and g4: "get_profile s (inv_sender_profile_id v) = Some sp"
    and g5: "get_account s (prof_account_id sp) = Some sa" by simp_all
  from r have r1: "refresh_if_expired ws now sa = Inr sa'"
    and r2: "create_meeting ws (webex_access_token sa') (inv_title v)
           (inv_start_time v) (inv_end_time v) = Raises e" by simp_all
  show "snd (accept_invitation ws now s u i) =
          jsonify (''Failed to create WebEx meeting: '' @ e) 500"
    by (rule accept_create_fails[OF g1 g2 v g3 pending g4 g5 t r1 r2])
qed


lemma demo_invited_lookups:
  "get_account demo_db_invited 1 = Some demo_alice"
  "get_account demo_db_invited 2 = Some demo_bob"
  "first_profile demo_db_invited demo_alice
     = Some \<lparr>prof_id = 1, prof_account_id = 1, prof_name = ''Room 9''\<rparr>"
  "first_profile demo_db_invited demo_bob
     = Some \<lparr>prof_id = 2, prof_account_id = 2, prof_name = ''Room 4''\<rparr>"
  "get_profile demo_db_invited 1
     = Some \<lparr>prof_id = 1, prof_account_id = 1, prof_name = ''Room 9''\<rparr>"
  "get_profile demo_db_invited 2
     = Some \<lparr>prof_id = 2, prof_account_id = 2, prof_name = ''Room 4''\<rparr>"
  "get_invitation demo_db_invited 1 = Some demo_invitation"
  "get_invitation demo_db_invited 2 = Some demo_invitation_back"
  by (simp_all add: get_account_def first_profile_def get_profile_def get_invitation_def
      demo_db_invited_def demo_db_def demo_alice_def demo_bob_def demo_invitation_def
      demo_invitation_back_def)

lemma demo_expired_lookups:
  "get_account demo_db_expired 1 = Some (demo_alice\<lparr>webex_token_expires_at := Some 10\<rparr>)"
  "get_account demo_db_expired 2 = Some demo_bob"
  "first_profile demo_db_expired demo_bob
     = Some \<lparr>prof_id = 2, prof_account_id = 2, prof_name = ''Room 4''\<rparr>"
  "get_profile demo_db_expired 1
     = Some \<lparr>prof_id = 1, prof_account_id = 1, prof_name = ''Room 9''\<rparr>"
  "get_invitation demo_db_expired 1 = Some demo_invitation"
  by (simp_all add: get_account_def first_profile_def get_profile_def get_invitation_def
      demo_db_expired_def demo_db_invited_def demo_db_def demo_alice_def demo_bob_def
      demo_invitation_def demo_invitation_back_def)

lemma demo_invitation_fields:
  "inv_status demo_invitation = ''pending''"
  "inv_status demo_invitation_back = ''pending''"
  "inv_sender_profile_id demo_invitation = 1" "inv_receiver_profile_id demo_invitation = 2"
  "inv_sender_profile_id demo_invitation_back = 2"
  "inv_receiver_profile_id demo_invitation_back = 1"
  by (simp_all add: demo_invitation_def demo_invitation_back_def)

theorem accept_failure_leaves_pending_witness:
  "get_invitation demo_db_invited 1 = Some demo_invitation \<and>
   inv_status demo_invitation = ''pending'' \<and>
   snd (accept_invitation demo_ws_down 1000 demo_db_invited 2 1) =
     jsonify ''Failed to create WebEx meeting: 503 Service Unavailable'' 500 \<and>
   get_invitation (fst (accept_invitation demo_ws_down 1000 demo_db_invited 2 1)) 1 =
     Some demo_invitation \<and>
   meetings (fst (accept_invitation demo_ws_down 1000 demo_db_invited 2 1)) =
     meetings demo_db_invited \<and>
   accept_invitation demo_ws 1000 demo_db_invited 1 2 =
     (demo_db_invited, jsonify ''The meeting organizer's WebEx account is not connected'' 403) \<and>
   accept_invitation demo_ws 1000 demo_db_expired 2 1 =
     (demo_db_expired, jsonify
        ''Failed to refresh organizer's WebEx session. Please try again later.'' 403)"
proof -
  note L = demo_invited_lookups
  note E = demo_expired_lookups
  note F = demo_invitation_fields
  \<comment> \<open>the gateway fails to create the meeting\<close>
  note T1 = accept_failure_leaves_pending[OF L(7) F(1), of demo_ws_down 1000 2]
  have G1: "get_account demo_db_invited 2 = Some demo_bob \<and>
            first_profile demo_db_invited demo_bob
              = Some \<lparr>prof_id = 2, prof_account_id = 2, prof_name = ''Room 4''\<rparr> \<and>
            inv_receiver_profile_id demo_invitation
              = prof_id \<lparr>prof_id = 2, prof_account_id = 2, prof_name = ''Room 4''\<rparr> \<and>
            get_profile demo_db_invited (inv_sender_profile_id demo_invitation)
              = Some \<lparr>prof_id = 1, prof_account_id = 1, prof_name = ''Room 9''\<rparr> \<and>
            get_account demo_db_invited
              (prof_account_id \<lparr>prof_id = 1, prof_account_id = 1, prof_name = ''Room 9''\<rparr>)
              = Some demo_alice"
    by (simp add: L F del: One_nat_def)
  have tok: "\<not> falsy (webex_access_token demo_alice)"
    by (simp add: falsy_def demo_alice_def)
  have R1: "refresh_if_expired demo_ws_down 1000 demo_alice = Inr demo_alice \<and>
            create_meeting demo_ws_down (webex_access_token demo_alice)
              (inv_title demo_invitation) (inv_start_time demo_invitation)
              (inv_end_time demo_invitation) = Raises ''503 Service Unavailable''"
    by (simp add: refresh_if_expired_def demo_alice_def demo_ws_down_def demo_create_down_def)
  have A: "snd (accept_invitation demo_ws_down 1000 demo_db_invited 2 1) =
             jsonify (''Failed to create WebEx meeting: '' @ ''503 Service Unavailable'') 500"
    by (rule T1[THEN conjunct2, rule_format, OF G1, THEN conjunct2, rule_format, OF tok,
          THEN conjunct2, rule_format, OF R1])
  then have A': "snd (accept_invitation demo_ws_down 1000 demo_db_invited 2 1) =
             jsonify ''Failed to create WebEx meeting: 503 Service Unavailable'' 500"
    by simp
  then have "code (snd (accept_invitation demo_ws_down 1000 demo_db_invited 2 1)) \<noteq> 201"
    by (simp add: jsonify_def)
  from T1[THEN conjunct1, rule_format, OF this]
  have B: "get_invitation (fst (accept_invitation demo_ws_down 1000 demo_db_invited 2 1)) 1 =
             Some demo_invitation"
    and C: "meetings (fst (accept_invitation demo_ws_down 1000 demo_db_invited 2 1)) =
             meetings demo_db_invited"
    by simp_all
  \<comment> \<open>the organizer holds no token\<close>
  note T2 = accept_failure_leaves_pending[OF L(8) F(2), of demo_ws 1000 1]
  have G2: "get_account demo_db_invited 1 = Some demo_alice \<and>
            first_profile demo_db_invited demo_alice
              = Some \<lparr>prof_id = 1, prof_account_id = 1, prof_name = ''Room 9''\<rparr> \<and>
            inv_receiver_profile_id demo_invitation_back
              = prof_id \<lparr>prof_id = 1, prof_account_id = 1, prof_name = ''Room 9''\<rparr> \<and>
            get_profile demo_db_invited (inv_sender_profile_id demo_invitation_back)
              = Some \<lparr>prof_id = 2, prof_account_id = 2, prof_name = ''Room 4''\<rparr> \<and>
            get_account demo_db_invited
              (prof_account_id \<lparr>prof_id = 2, prof_account_id = 2, prof_name = ''Room 4''\<rparr>)
              = Some demo_bob"
    by (simp add: L F del: One_nat_def)
  have notok: "falsy (webex_access_token demo_bob)"
    by (simp add: falsy_def demo_bob_def)
  have D: "accept_invitation demo_ws 1000 demo_db_invited 1 2 =
     (demo_db_invited, jsonify ''The meeting organizer's WebEx account is not connected'' 403)"
    by (rule T2[THEN conjunct2, rule_format, OF G2, THEN conjunct1, rule_format, OF notok])
  \<comment> \<open>the organizer's token has expired and the refresh fails\<close>
  note T3 = accept_failure_leaves_pending[OF E(5) F(1), of demo_ws 1000 2]
  have G3: "get_account demo_db_expired 2 = Some demo_bob \<and>
            first_profile demo_db_expired demo_bob
              = Some \<lparr>prof_id = 2, prof_account_id = 2, prof_name = ''Room 4''\<rparr> \<and>
            inv_receiver_profile_id demo_invitation
              = prof_id \<lparr>prof_id = 2, prof_account_id = 2, prof_name = ''Room 4''\<rparr> \<and>
            get_profile demo_db_expired (inv_sender_profile_id demo_invitation)
              = Some \<lparr>prof_id = 1, prof_account_id = 1, prof_name = ''Room 9''\<rparr> \<and>
            get_account demo_db_expired
              (prof_account_id \<lparr>prof_id = 1, prof_account_id = 1, prof_name = ''Room 9''\<rparr>)
              = Some (demo_alice\<lparr>webex_token_expires_at := Some 10\<rparr>)"
    by (simp add: E F del: One_nat_def)
  have tok3: "\<not> falsy (webex_access_token (demo_alice\<lparr>webex_token_expires_at := Some 10\<rparr>))"
    by (simp add: falsy_def demo_alice_def)
  have R3: "webex_token_expires_at (demo_alice\<lparr>webex_token_expires_at := Some 10\<rparr>) = Some 10 \<and>
            10 < (1000::int) \<and>
            refresh_access_token demo_ws
              (webex_refresh_token (demo_alice\<lparr>webex_token_expires_at := Some 10\<rparr>))
              = Raises ''invalid_grant''"
    by (simp add: demo_ws_def demo_refresh_def)
  have H: "accept_invitation demo_ws 1000 demo_db_expired 2 1 =
     (demo_db_expired, jsonify
        ''Failed to refresh organizer's WebEx session. Please try again later.'' 403)"
    by (rule T3[THEN conjunct2, rule_format, OF G3, THEN conjunct2, rule_format, OF tok3,
          THEN conjunct1, rule_format, OF R3])
  show ?thesis
    by (intro conjI) (rule L(7) F(1) A' B C D H)+
qed


lemma find_map_invitation:
  "find (\<lambda>w. inv_id w = q) (map (\<lambda>w. if inv_id w = inv_id v then v else w) vs) =
     (if q = inv_id v then map_option (\<lambda>_. v) (find (\<lambda>w. inv_id w = q) vs)
      else find (\<lambda>w. inv_id w = q) vs)"
  by (induction vs) auto

lemma get_invitation_commit:
  "get_invitation (commit_invitation v s) q =
     (if q = inv_id v then map_option (\<lambda>_. v) (get_invitation s q) else get_invitation s q)"
  by (simp add: get_invitation_def commit_invitation_def find_map_invitation)

lemma get_invitation_meetings_update:
  "get_invitation (s\<lparr>meetings := ms\<rparr>) q = get_invitation s q"
  by (simp add: get_invitation_def)

lemma get_invitation_commit_account:
  "get_invitation (commit_account a s) q = get_invitation s q"
  by (simp add: get_invitation_def commit_account_def)

lemma get_invitation_id: "get_invitation s i = Some v \<Longrightarrow> inv_id v = i"
  by (auto simp: get_invitation_def find_Some_iff)

text \<open>
  Claim C3 fails on the code at every acceptance that succeeds; here is one. The second
  account accepts the invitation of the first classroom and the gateway creates the
  meeting. The request is answered 201, the meeting is stored with the key 1, the sender's
  classroom as creator and the receiver's as participant, and the invitation is accepted;
  but its \<open>meeting_id\<close> is \<open>None\<close>, not the key of the meeting: the handler reads
  \<open>new_meeting.id\<close> before the session has flushed the new object.
\<close>

theorem accept_invitation_leaves_meeting_id_unset:
  "code (snd (accept_invitation demo_ws 1000 demo_db_invited 2 1)) = 201 \<and>
   meetings (fst (accept_invitation demo_ws 1000 demo_db_invited 2 1)) =
     [\<lparr>meet_id = Some 1, webex_id = Some ''wx-1'', meet_title = Some ''Pen pals'',
       meet_start_time = 5000, meet_end_time = 8600,
       web_link = Some ''https://meet.example/wx-1'', meet_password = Some ''pw'',
       creator_id = 1, participants = [2]\<rparr>] \<and>
   get_invitation (fst (accept_invitation demo_ws 1000 demo_db_invited 2 1)) 1 =
     Some \<lparr>inv_id = 1, inv_sender_profile_id = 1, inv_receiver_profile_id = 2,
            inv_title = Some ''Pen pals'', inv_start_time = 5000, inv_end_time = 8600,
            inv_status = ''accepted'', inv_meeting_id = None\<rparr>"
proof -
  have m: "meetings demo_db_invited = []"
    by (simp add: demo_db_invited_def demo_db_def)
  have a: "webex_access_token demo_alice = Some ''tok''"
    "webex_token_expires_at demo_alice = None"
    by (simp_all add: demo_alice_def)
  have f: "inv_title demo_invitation = Some ''Pen pals''"
    "inv_start_time demo_invitation = 5000" "inv_end_time demo_invitation = 8600"
    by (simp_all add: demo_invitation_def)
  have R: "accept_invitation demo_ws 1000 demo_db_invited 2 1 =
     ((commit_invitation (demo_invitation\<lparr>inv_status := ''accepted'', inv_meeting_id := None\<rparr>)
         demo_db_invited)
        \<lparr>meetings := meetings demo_db_invited @
           [\<lparr>meet_id = Some 1, webex_id = Some ''wx-1'', meet_title = Some ''Pen pals'',
             meet_start_time = 5000, meet_end_time = 8600,
             web_link = Some ''https://meet.example/wx-1'', meet_password = Some ''pw'',
             creator_id = 1, participants = [2]\<rparr>]\<rparr>,
      jsonify_with ''Invitation accepted. Meeting created successfully!''
        (MeetingBody (Some 1) (Some ''Pen pals'') (Some ''https://meet.example/wx-1'')
           5000 8600 (Some ''pw'')) 201)"
    by (simp add: accept_invitation_def demo_invited_lookups demo_invitation_fields a f m
        falsy_def refresh_if_expired_def demo_ws_def demo_create_def
        Let_def flush_meeting_def meeting_ids_def next_id_def meeting_insertable_def
        del: One_nat_def) simp
  have i: "inv_id demo_invitation = 1" by (simp add: demo_invitation_def)
  have g: "get_invitation (commit_invitation
             (demo_invitation\<lparr>inv_status := ''accepted'', inv_meeting_id := None\<rparr>)
             demo_db_invited) 1 =
           Some (demo_invitation\<lparr>inv_status := ''accepted'', inv_meeting_id := None\<rparr>)"
    by (simp add: get_invitation_commit i demo_invited_lookups del: One_nat_def)
  show ?thesis
    unfolding R
    by (simp add: jsonify_with_def m get_invitation_meetings_update g del: One_nat_def)
       (simp add: demo_invitation_def)
qed











section \<open>Properties of the friend requests\<close>

lemma find_filter_hd:
  "find P xs = (case filter P xs of [] \<Rightarrow> None | x # _ \<Rightarrow> Some x)"
  by (induction xs) auto

lemma existing_relation_None:
  "relations_between s a b = [] \<Longrightarrow> existing_relation s a b = None"
  by (simp add: existing_relation_def relations_between_def find_None_iff filter_empty_conv)

lemma pending_between_only:
  assumes "pending_between s a b = [r]" and "q \<in> set (friend_requests s)"
    and "fr_status q = ''pending''"
    and "(fr_sender_profile_id q = a \<and> fr_receiver_profile_id q = b) \<or>
         (fr_sender_profile_id q = b \<and> fr_receiver_profile_id q = a)"
  shows "q = r"
proof -
  from assms(2-4) have "q \<in> set (pending_between s a b)"
    by (simp add: pending_between_def)
  with assms(1) show ?thesis by simp
qed

lemma pending_forward_None:
  assumes p: "pending_between s a b = [r]"
    and dir: "fr_sender_profile_id r = b" "fr_receiver_profile_id r = a" and ne: "a \<noteq> b"
  shows "pending_request s a b = None"
proof -
  have "\<not> (\<exists>q \<in> set (friend_requests s).
          fr_sender_profile_id q = a \<and> fr_receiver_profile_id q = b \<and>
          fr_status q = ''pending'')"
  proof
    assume "\<exists>q \<in> set (friend_requests s).
          fr_sender_profile_id q = a \<and> fr_receiver_profile_id q = b \<and>
          fr_status q = ''pending''"
    then obtain q where q: "q \<in> set (friend_requests s)" "fr_sender_profile_id q = a"
      "fr_receiver_profile_id q = b" "fr_status q = ''pending''" by blast
    then have "q = r" using pending_between_only[OF p, of q] by simp
    with q dir ne show False by simp
  qed
  then show ?thesis by (simp add: pending_request_def find_None_iff)
qed

lemma pending_reverse_Some:
  assumes p: "pending_between s a b = [r]"
    and dir: "fr_sender_profile_id r = b" "fr_receiver_profile_id r = a"
  shows "pending_request s b a = Some r"
proof -
  let ?P = "\<lambda>q. fr_sender_profile_id q = b \<and> fr_receiver_profile_id q = a \<and>
                 fr_status q = ''pending''"
  let ?Q = "\<lambda>q. fr_status q = ''pending'' \<and>
                  ((fr_sender_profile_id q = a \<and> fr_receiver_profile_id q = b) \<or>
                   (fr_sender_profile_id q = b \<and> fr_receiver_profile_id q = a))"
  have "r \<in> set (pending_between s a b)" using p by simp
  then have rp: "fr_status r = ''pending''" by (simp add: pending_between_def)
  have "filter ?P (friend_requests s) = filter ?P (filter ?Q (friend_requests s))"
    unfolding filter_filter by (rule filter_cong) auto
  also have "\<dots> = filter ?P [r]" using p by (simp add: pending_between_def)
  also have "\<dots> = [r]" using dir rp by simp
  finally have "filter ?P (friend_requests s) = [r]" .
  then show ?thesis by (simp add: pending_request_def find_filter_hd)
qed


lemma send_mutual:
  assumes "get_account s u = Some a" and "first_profile s a = Some sp"
    and "classroomId d = Some t" and "t \<noteq> 0"
    and "get_profile s t = Some tp" and "prof_id sp \<noteq> prof_id tp"
    and "existing_relation s (prof_id sp) (prof_id tp) = None"
    and "pending_request s (prof_id sp) (prof_id tp) = None"
    and "pending_request s (prof_id tp) (prof_id sp) = Some r"
  shows "send_friend_request s u (Some d) =
     ((commit_friend_request (r\<lparr>fr_status := ''accepted''\<rparr>) s)
        \<lparr>relations := relations s @
           [\<lparr>rel_id = next_id (map rel_id (relations s)),
             from_profile_id = prof_id tp, to_profile_id = prof_id sp,
             rel_status = ''accepted''\<rparr>,
            \<lparr>rel_id = Suc (next_id (map rel_id (relations s))),
             from_profile_id = prof_id sp, to_profile_id = prof_id tp,
             rel_status = ''accepted''\<rparr>],
         notifications := notifications s @
           [\<lparr>notif_id = next_id (map notif_id (notifications s)),
             notif_account_id = prof_account_id tp,
             notif_title = Some ''Friend Request Accepted'',
             notif_message = Some (prof_name sp @ '' accepted your friend request!''),
             notif_type = ''success'',
             notif_related_id = Some (str (prof_id sp))\<rparr>]\<rparr>,
      jsonify_with ''Friend request accepted (mutual)'' (Status ''accepted'') 200)"
  using assms
  by (simp add: send_friend_request_def Let_def notification_insertable_def
      relation_default_status_def)

lemma friend_requests_after_commit:
  "friend_requests ((commit_friend_request r' s)\<lparr>relations := rs, notifications := ns\<rparr>) =
     map (\<lambda>q. if fr_id q = fr_id r' then r' else q) (friend_requests s)"
  by (simp add: commit_friend_request_def)

lemma pending_between_after_commit:
  assumes p: "pending_between s a b = [r]"
  shows "pending_between
           ((commit_friend_request (r\<lparr>fr_status := ''accepted''\<rparr>) s)
              \<lparr>relations := rs, notifications := ns\<rparr>) a b = []"
proof -
  let ?P = "\<lambda>q. fr_status q = ''pending'' \<and>
                  ((fr_sender_profile_id q = a \<and> fr_receiver_profile_id q = b) \<or>
                   (fr_sender_profile_id q = b \<and> fr_receiver_profile_id q = a))"
  let ?r = "r\<lparr>fr_status := ''accepted''\<rparr>"
  let ?f = "\<lambda>q. if fr_id q = fr_id ?r then ?r else q"
  have key: "\<not> ?P (?f q)" if q: "q \<in> set (friend_requests s)" for q
  proof (cases "fr_id q = fr_id r")
    case True
    then show ?thesis by simp
  next
    case False
    show ?thesis
    proof
      assume "?P (?f q)"
      with False have "fr_status q = ''pending''"
        and "(fr_sender_profile_id q = a \<and> fr_receiver_profile_id q = b) \<or>
             (fr_sender_profile_id q = b \<and> fr_receiver_profile_id q = a)" by simp_all
      then have "q = r" by (rule pending_between_only[OF p q])
      with False show False by simp
    qed
  qed
  have "filter ?P (map ?f (friend_requests s)) = []"
    unfolding filter_empty_conv set_map using key by blast
  then show ?thesis
    unfolding pending_between_def friend_requests_after_commit .
qed

lemma relations_between_after:
  assumes "relations_between s a b = []" and "a \<noteq> b"
  shows "relations_between
           (s'\<lparr>relations := relations s @
                [\<lparr>rel_id = k, from_profile_id = b, to_profile_id = a, rel_status = st\<rparr>,
                 \<lparr>rel_id = k', from_profile_id = a, to_profile_id = b, rel_status = st\<rparr>],
               notifications := ns\<rparr>) a b =
         [\<lparr>rel_id = k, from_profile_id = b, to_profile_id = a, rel_status = st\<rparr>,
          \<lparr>rel_id = k', from_profile_id = a, to_profile_id = b, rel_status = st\<rparr>]"
  using assms by (simp add: relations_between_def)


lemma demo_friend_lookups:
  "get_account (demo_db\<lparr>friend_requests := fs\<rparr>) 1 = Some demo_alice"
  "first_profile (demo_db\<lparr>friend_requests := fs\<rparr>) demo_alice
     = Some \<lparr>prof_id = 1, prof_account_id = 1, prof_name = ''Room 9''\<rparr>"
  "get_profile (demo_db\<lparr>friend_requests := fs\<rparr>) 2
     = Some \<lparr>prof_id = 2, prof_account_id = 2, prof_name = ''Room 4''\<rparr>"
  "relations_between (demo_db\<lparr>friend_requests := fs\<rparr>) 1 2 = []"
  "existing_relation (demo_db\<lparr>friend_requests := fs\<rparr>) 1 2 = None"
  "classroomId demo_friend_data = Some 2"
  by (simp_all add: get_account_def first_profile_def get_profile_def relations_between_def
      existing_relation_def demo_db_def demo_alice_def demo_friend_data_def)

text \<open>
  Claim C4 as it is stated fails on two states that have a pending request from the
  second classroom to the first and no relation. When a pending request in the other
  direction is there too, the request of the first account is answered 400, ``already
  sent'', and changes nothing: that check comes before the one for a reverse request. When
  the reverse request is there twice, only its first row is marked accepted and the second
  stays pending.
\<close>

theorem mutual_request_crossed_or_doubled:
  "pending_request demo_db_crossed 2 1 = Some demo_request \<and>
   relations_between demo_db_crossed 1 2 = [] \<and>
   send_friend_request demo_db_crossed 1 (Some demo_friend_data) =
     (demo_db_crossed, jsonify ''Friend request already sent'' 400) \<and>
   pending_request demo_db_twice 2 1 = Some demo_request \<and>
   relations_between demo_db_twice 1 2 = [] \<and>
   snd (send_friend_request demo_db_twice 1 (Some demo_friend_data)) =
     jsonify_with ''Friend request accepted (mutual)'' (Status ''accepted'') 200 \<and>
   pending_between (fst (send_friend_request demo_db_twice 1 (Some demo_friend_data))) 1 2 =
     [demo_request\<lparr>fr_id := 2\<rparr>]"
proof -
  note L = demo_friend_lookups
  have c1: "pending_request demo_db_crossed 2 1 = Some demo_request"
    and c2: "pending_request demo_db_crossed 1 2 \<noteq> None"
    by (simp_all add: pending_request_def demo_db_crossed_def demo_request_def)
  have c3: "relations_between demo_db_crossed 1 2 = []"
    unfolding demo_db_crossed_def by (rule L(4))
  have c4: "send_friend_request demo_db_crossed 1 (Some demo_friend_data) =
              (demo_db_crossed, jsonify ''Friend request already sent'' 400)"
    using c2 unfolding demo_db_crossed_def
    by (simp add: send_friend_request_def L del: One_nat_def)
  have t1: "pending_request demo_db_twice 2 1 = Some demo_request"
    and t2: "pending_request demo_db_twice 1 2 = None"
    by (simp_all add: pending_request_def demo_db_twice_def demo_request_def)
  have t3: "relations_between demo_db_twice 1 2 = []"
    unfolding demo_db_twice_def by (rule L(4))
  have L2: "get_account demo_db_twice 1 = Some demo_alice"
    "first_profile demo_db_twice demo_alice
       = Some \<lparr>prof_id = 1, prof_account_id = 1, prof_name = ''Room 9''\<rparr>"
    "get_profile demo_db_twice 2
       = Some \<lparr>prof_id = 2, prof_account_id = 2, prof_name = ''Room 4''\<rparr>"
    "existing_relation demo_db_twice 1 2 = None"
    "classroomId demo_friend_data = Some 2"
    unfolding demo_db_twice_def by (rule L)+
  have t4: "send_friend_request demo_db_twice 1 (Some demo_friend_data) =
     ((commit_friend_request (demo_request\<lparr>fr_status := ''accepted''\<rparr>) demo_db_twice)
        \<lparr>relations := relations demo_db_twice @
           [\<lparr>rel_id = next_id (map rel_id (relations demo_db_twice)),
             from_profile_id = 2, to_profile_id = 1, rel_status = ''accepted''\<rparr>,
            \<lparr>rel_id = Suc (next_id (map rel_id (relations demo_db_twice))),
             from_profile_id = 1, to_profile_id = 2, rel_status = ''accepted''\<rparr>],
         notifications := notifications demo_db_twice @
           [\<lparr>notif_id = next_id (map notif_id (notifications demo_db_twice)),
             notif_account_id = 2,
             notif_title = Some ''Friend Request Accepted'',
             notif_message = Some (''Room 9'' @ '' accepted your friend request!''),
             notif_type = ''success'',
             notif_related_id = Some (str 1)\<rparr>]\<rparr>,
      jsonify_with ''Friend request accepted (mutual)'' (Status ''accepted'') 200)"
    using send_mutual[of demo_db_twice 1 demo_alice
        "\<lparr>prof_id = 1, prof_account_id = 1, prof_name = ''Room 9''\<rparr>" demo_friend_data 2
        "\<lparr>prof_id = 2, prof_account_id = 2, prof_name = ''Room 4''\<rparr>" demo_request]
      t1 t2 L2
    by (simp del: One_nat_def)
  have t5: "pending_between (fst (send_friend_request demo_db_twice 1 (Some demo_friend_data)))
              1 2 = [demo_request\<lparr>fr_id := 2\<rparr>]"
    unfolding t4
    by (simp add: pending_between_def friend_requests_after_commit)
       (simp add: demo_db_twice_def demo_request_def)
  have t6: "snd (send_friend_request demo_db_twice 1 (Some demo_friend_data)) =
     jsonify_with ''Friend request accepted (mutual)'' (Status ''accepted'') 200"
    unfolding t4 by simp
  show ?thesis
    by (intro conjI) (rule c1 c3 c4 t1 t3 t5 t6)+
qed


text \<open>
  Claim C4, amended. Let the caller's classroom \<open>sp\<close> and the target classroom
  \<open>tp\<close> differ, with no relation between them and exactly one pending friend request
  between them, \<open>r\<close>, sent by the target to the caller's classroom. Then the request of
  the caller is answered 200 with the status \<open>accepted\<close>; the row of \<open>r\<close> is marked
  accepted; two relations are appended, one per direction, and they are the relations
  between the two classrooms; one notification is appended, for the account that owns
  the target classroom; and no pending request between the two classrooms is left. The
  relations have the status that the model \<open>Relation\<close> gives by default.
\<close>

theorem mutual_request_accepts:
  assumes a: "get_account s u = Some a" and sp: "first_profile s a = Some sp"
    and d: "classroomId d = Some t" and t0: "t \<noteq> 0"
    and tp: "get_profile s t = Some tp" and ne: "prof_id sp \<noteq> prof_id tp"
    and rel: "relations_between s (prof_id sp) (prof_id tp) = []"
    and pend: "pending_between s (prof_id sp) (prof_id tp) = [r]"
    and dir: "fr_sender_profile_id r = prof_id tp" "fr_receiver_profile_id r = prof_id sp"
  shows "snd (send_friend_request s u (Some d)) =
           jsonify_with ''Friend request accepted (mutual)'' (Status ''accepted'') 200 \<and>
         friend_requests (fst (send_friend_request s u (Some d))) =
           map (\<lambda>q. if fr_id q = fr_id r then r\<lparr>fr_status := ''accepted''\<rparr> else q)
             (friend_requests s) \<and>
         relations (fst (send_friend_request s u (Some d))) =
           relations s @
             [\<lparr>rel_id = next_id (map rel_id (relations s)),
               from_profile_id = prof_id tp, to_profile_id = prof_id sp,
               rel_status = ''accepted''\<rparr>,
              \<lparr>rel_id = Suc (next_id (map rel_id (relations s))),
               from_profile_id = prof_id sp, to_profile_id = prof_id tp,
               rel_status = ''accepted''\<rparr>] \<and>
         relations_between (fst (send_friend_request s u (Some d))) (prof_id sp) (prof_id tp) =
             [\<lparr>rel_id = next_id (map rel_id (relations s)),
               from_profile_id = prof_id tp, to_profile_id = prof_id sp,
               rel_status = ''accepted''\<rparr>,
              \<lparr>rel_id = Suc (next_id (map rel_id (relations s))),
               from_profile_id = prof_id sp, to_profile_id = prof_id tp,
               rel_status = ''accepted''\<rparr>] \<and>
         (\<exists>n. notifications (fst (send_friend_request s u (Some d))) = notifications s @ [n] \<and>
              notif_account_id n = prof_account_id tp) \<and>
         pending_between (fst (send_friend_request s u (Some d))) (prof_id sp) (prof_id tp) = []"
proof -
  note R = send_mutual[OF a sp d t0 tp ne existing_relation_None[OF rel]
             pending_forward_None[OF pend dir ne] pending_reverse_Some[OF pend dir]]
  show ?thesis
  proof (intro conjI)
    show "snd (send_friend_request s u (Some d)) =
           jsonify_with ''Friend request accepted (mutual)'' (Status ''accepted'') 200"
      unfolding R by simp
    show "friend_requests (fst (send_friend_request s u (Some d))) =
           map (\<lambda>q. if fr_id q = fr_id r then r\<lparr>fr_status := ''accepted''\<rparr> else q)
             (friend_requests s)"
      unfolding R by (simp add: commit_friend_request_def)
    show "relations (fst (send_friend_request s u (Some d))) =
           relations s @
             [\<lparr>rel_id = next_id (map rel_id (relations s)),
               from_profile_id = prof_id tp, to_profile_id = prof_id sp,
               rel_status = ''accepted''\<rparr>,
              \<lparr>rel_id = Suc (next_id (map rel_id (relations s))),
               from_profile_id = prof_id sp, to_profile_id = prof_id tp,
               rel_status = ''accepted''\<rparr>]"
      unfolding R by simp
    show "relations_between (fst (send_friend_request s u (Some d))) (prof_id sp) (prof_id tp) =
             [\<lparr>rel_id = next_id (map rel_id (relations s)),
               from_profile_id = prof_id tp, to_profile_id = prof_id sp,
               rel_status = ''accepted''\<rparr>,
              \<lparr>rel_id = Suc (next_id (map rel_id (relations s))),
               from_profile_id = prof_id sp, to_profile_id = prof_id tp,
               rel_status = ''accepted''\<rparr>]"
      unfolding R fst_conv by (rule relations_between_after[OF rel ne])
    show "\<exists>n. notifications (fst (send_friend_request s u (Some d))) = notifications s @ [n] \<and>
              notif_account_id n = prof_account_id tp"
      unfolding R by simp
    show "pending_between (fst (send_friend_request s u (Some d))) (prof_id sp) (prof_id tp) = []"
      unfolding R fst_conv by (rule pending_between_after_commit[OF pend])
  qed
qed

theorem mutual_request_accepts_witness:
  "pending_between demo_db_requested 1 2 = [demo_request] \<and>
   relations_between demo_db_requested 1 2 = [] \<and>
   snd (send_friend_request demo_db_requested 1 (Some demo_friend_data)) =
     jsonify_with ''Friend request accepted (mutual)'' (Status ''accepted'') 200 \<and>
   friend_requests (fst (send_friend_request demo_db_requested 1 (Some demo_friend_data))) =
     [demo_request\<lparr>fr_status := ''accepted''\<rparr>] \<and>
   relations (fst (send_friend_request demo_db_requested 1 (Some demo_friend_data))) =
     [\<lparr>rel_id = 1, from_profile_id = 2, to_profile_id = 1, rel_status = ''accepted''\<rparr>,
      \<lparr>rel_id = 2, from_profile_id = 1, to_profile_id = 2, rel_status = ''accepted''\<rparr>] \<and>
   pending_between (fst (send_friend_request demo_db_requested 1 (Some demo_friend_data))) 1 2
     = []"
proof -
  note L = demo_friend_lookups
  have L1: "get_account demo_db_requested 1 = Some demo_alice"
    "first_profile demo_db_requested demo_alice
       = Some \<lparr>prof_id = 1, prof_account_id = 1, prof_name = ''Room 9''\<rparr>"
    "get_profile demo_db_requested 2
       = Some \<lparr>prof_id = 2, prof_account_id = 2, prof_name = ''Room 4''\<rparr>"
    "relations_between demo_db_requested 1 2 = []"
    unfolding demo_db_requested_def by (rule L)+
  have p: "pending_between demo_db_requested 1 2 = [demo_request]"
    by (simp add: pending_between_def demo_db_requested_def demo_request_def)
  have f: "friend_requests demo_db_requested = [demo_request]"
    and r: "relations demo_db_requested = []"
    by (simp_all add: demo_db_requested_def demo_db_def)
  have i: "prof_id \<lparr>prof_id = 1, prof_account_id = 1, prof_name = ''Room 9''\<rparr> = 1"
    "prof_id \<lparr>prof_id = 2, prof_account_id = 2, prof_name = ''Room 4''\<rparr> = 2"
    by simp_all
  have n: "(2::nat) \<noteq> 0" "(1::nat) \<noteq> 2"
    "fr_sender_profile_id demo_request = 2" "fr_receiver_profile_id demo_request = 1"
    by (simp_all add: demo_request_def)
  note T = mutual_request_accepts[OF L1(1) L1(2) L(6) n(1) L1(3), unfolded i,
             OF n(2) L1(4) p n(3) n(4)]
  have A: "snd (send_friend_request demo_db_requested 1 (Some demo_friend_data)) =
     jsonify_with ''Friend request accepted (mutual)'' (Status ''accepted'') 200"
    by (rule T[THEN conjunct1])
  have B: "friend_requests (fst (send_friend_request demo_db_requested 1
             (Some demo_friend_data))) = [demo_request\<lparr>fr_status := ''accepted''\<rparr>]"
    using T[THEN conjunct2, THEN conjunct1] unfolding f by simp
  have C: "relations (fst (send_friend_request demo_db_requested 1 (Some demo_friend_data))) =
     [\<lparr>rel_id = 1, from_profile_id = 2, to_profile_id = 1, rel_status = ''accepted''\<rparr>,
      \<lparr>rel_id = 2, from_profile_id = 1, to_profile_id = 2, rel_status = ''accepted''\<rparr>]"
    using T[THEN conjunct2, THEN conjunct2, THEN conjunct1] unfolding r
    by (simp add: next_id_def)
  have D: "pending_between (fst (send_friend_request demo_db_requested 1
             (Some demo_friend_data))) 1 2 = []"
    by (rule T[THEN conjunct2, THEN conjunct2, THEN conjunct2, THEN conjunct2, THEN conjunct2])
  show ?thesis
    by (intro conjI) (rule p L1(4) A B C D)+
qed

text \<open>
  Claim C5 fails on the code where a relation between the two classrooms is not an
  accepted one. The only relation of this state has the status \<open>pending\<close>, and the
  first account has no pending request to the second classroom; the claim has the request
  go through, and the handler answers with its conflict, ``Already friends'': its query
  for a relation does not look at the status.
\<close>

theorem pending_relation_answered_already_friends:
  "map rel_status (relations demo_db_acquainted) = [''pending''] \<and>
   pending_request demo_db_acquainted 1 2 = None \<and>
   send_friend_request demo_db_acquainted 1 (Some demo_friend_data) =
     (demo_db_acquainted, jsonify ''Already friends'' 400)"
  by (simp add: send_friend_request_def get_account_def first_profile_def get_profile_def
      existing_relation_def pending_request_def demo_db_acquainted_def demo_db_def
      demo_alice_def demo_friend_data_def)

end
